theory Spec2Isabelle
  imports Main "HOL-Library.Word"
begin

section \<open>Crab control-flow graphs (include/crab/cfg/cfg.hpp)\<close>

text \<open>
  A shallow embedding of the statement classes, \<open>basic_block\<close>, \<open>Cfg\<close>, \<open>cfg_rev\<close>,
  \<open>cfg_hasher\<close> and \<open>type_checker\<close> of cfg.hpp. Objects that the C++ code reaches
  through references (the blocks of a CFG) live in the CFG's block table and are named
  by their key; a fatal \<open>CRAB_ERROR\<close> is the left injection of a sum.
\<close>

subsection \<open>Errors\<close>

datatype crab_error = CRAB_ERROR string

definition andthen :: "crab_error + unit \<Rightarrow> crab_error + 'a \<Rightarrow> crab_error + 'a" where
  "andthen r k = (case r of Inl e \<Rightarrow> Inl e | Inr _ \<Rightarrow> k)"

definition bind_err :: "crab_error + 'a \<Rightarrow> ('a \<Rightarrow> crab_error + 'b) \<Rightarrow> crab_error + 'b" where
  "bind_err r k = (case r of Inl e \<Rightarrow> Inl e | Inr x \<Rightarrow> k x)"

fun for_each :: "('a \<Rightarrow> crab_error + unit) \<Rightarrow> 'a list \<Rightarrow> crab_error + unit" where
  "for_each f [] = Inr ()"
| "for_each f (x # xs) = andthen (f x) (for_each f xs)"

subsection \<open>Enumerations\<close>

text \<open>\<open>enum tracked_precision { NUM = 0, PTR = 1, ARR = 2 }\<close>\<close>

datatype tracked_precision = NUM | PTR | ARR

fun prec_value :: "tracked_precision \<Rightarrow> nat" where
  "prec_value NUM = 0"
| "prec_value PTR = 1"
| "prec_value ARR = 2"

datatype stmt_code =
    UNDEF
  | BIN_OP | ASSIGN | ASSUME | UNREACH | SELECT | ASSERT
  | ARR_INIT | ARR_ASSUME | ARR_STORE | ARR_LOAD | ARR_ASSIGN
  | PTR_LOAD | PTR_STORE | PTR_ASSIGN | PTR_OBJECT | PTR_FUNCTION | PTR_NULL
  | PTR_ASSUME | PTR_ASSERT
  | CALLSITE | RETURN
  | HAVOC
  | BOOL_BIN_OP | BOOL_ASSIGN_CST | BOOL_ASSIGN_VAR | BOOL_ASSUME | BOOL_SELECT | BOOL_ASSERT
  | INT_CAST

text \<open>
  Modelled from the spec: the enumerations of crab/common/types.hpp, which cfg.hpp
  includes. The variable types are the flat lattice listed in the header comment of
  cfg.hpp, in that order (the constructors of array statements compare a type with
  \<open>ARR_BOOL_TYPE\<close> by the enumeration order); the operators are the ones cfg.hpp names.
\<close>

datatype variable_type =
    BOOL_TYPE | INT_TYPE | REAL_TYPE | PTR_TYPE
  | ARR_BOOL_TYPE | ARR_INT_TYPE | ARR_REAL_TYPE | ARR_PTR_TYPE

fun type_value :: "variable_type \<Rightarrow> nat" where
  "type_value BOOL_TYPE = 0"
| "type_value INT_TYPE = 1"
| "type_value REAL_TYPE = 2"
| "type_value PTR_TYPE = 3"
| "type_value ARR_BOOL_TYPE = 4"
| "type_value ARR_INT_TYPE = 5"
| "type_value ARR_REAL_TYPE = 6"
| "type_value ARR_PTR_TYPE = 7"

datatype binary_operation =
    BINOP_ADD | BINOP_SUB | BINOP_MUL | BINOP_SDIV | BINOP_UDIV
  | BINOP_SREM | BINOP_UREM | BINOP_AND | BINOP_OR | BINOP_XOR

datatype bool_binary_operation = BINOP_BAND | BINOP_BOR | BINOP_BXOR

datatype cast_operation = CAST_TRUNC | CAST_SEXT | CAST_ZEXT

subsection \<open>Variables, linear expressions and constraints\<close>

text \<open>
  Modelled from the spec: \<open>ikos::variable\<close> (crab/domains/linear_constraints.hpp): a
  typed variable is a (name, type, bit width) triple and two variables are equal iff
  their names are.
\<close>

record 'v variable =
  var_name :: 'v
  get_type :: variable_type
  get_bitwidth :: nat

definition var_eq :: "'v variable \<Rightarrow> 'v variable \<Rightarrow> bool" where
  "var_eq v w = (var_name v = var_name w)"

text \<open>
  Modelled from the spec: \<open>ikos::linear_expression\<close>, an affine combination of typed
  variables, given by its terms (coefficient, variable) and its constant.
  \<open>variables\<close> is the sequence of the variables of the terms, \<open>is_constant\<close> holds when
  there is no term, and \<open>get_variable\<close> returns the variable of an expression that is a
  bare variable.
\<close>

datatype 'v linear_expression = Linear_expression "(int \<times> 'v variable) list" int

fun variables :: "'v linear_expression \<Rightarrow> 'v variable list" where
  "variables (Linear_expression ts c) = map snd ts"

fun is_constant :: "'v linear_expression \<Rightarrow> bool" where
  "is_constant (Linear_expression ts c) = (ts = [])"

fun get_variable :: "'v linear_expression \<Rightarrow> 'v variable option" where
  "get_variable (Linear_expression [(k, v)] c) = (if k = 1 \<and> c = 0 then Some v else None)"
| "get_variable (Linear_expression ts c) = None"

definition exp_of_var :: "'v variable \<Rightarrow> 'v linear_expression" where
  "exp_of_var v = Linear_expression [(1, v)] 0"

definition exp_of_num :: "int \<Rightarrow> 'v linear_expression" where
  "exp_of_num n = Linear_expression [] n"

text \<open>
  Modelled from the spec: \<open>ikos::linear_constraint\<close>, a linear expression compared
  with zero; it exposes the variables of its expression.
\<close>

datatype constraint_kind = EQUALITY | DISEQUATION | INEQUALITY

datatype 'v linear_constraint = Linear_constraint "'v linear_expression" constraint_kind

fun cst_variables :: "'v linear_constraint \<Rightarrow> 'v variable list" where
  "cst_variables (Linear_constraint e k) = variables e"

text \<open>
  Modelled from the spec: \<open>pointer_constraint\<close> (crab/common/types.hpp): a tautology,
  a contradiction, a unary constraint on \<open>lhs\<close> (against null) or a binary one between
  \<open>lhs\<close> and \<open>rhs\<close>; the flag tells an equality from a disequality.
\<close>

datatype 'v pointer_constraint =
    Ptr_tautology
  | Ptr_contradiction
  | Ptr_unary "'v variable" bool
  | Ptr_binary "'v variable" "'v variable" bool

subsection \<open>Live sets\<close>

record 'v Live =
  m_uses :: "'v variable list"
  m_defs :: "'v variable list"

definition Live_empty :: "'v Live" where
  "Live_empty = \<lparr>m_uses = [], m_defs = []\<rparr>"

definition live_add :: "'v variable list \<Rightarrow> 'v variable \<Rightarrow> 'v variable list" where
  "live_add s v = (if list_ex (var_eq v) s then s else s @ [v])"

definition add_use :: "'v Live \<Rightarrow> 'v variable \<Rightarrow> 'v Live" where
  "add_use l v = l\<lparr>m_uses := live_add (m_uses l) v\<rparr>"

definition add_def :: "'v Live \<Rightarrow> 'v variable \<Rightarrow> 'v Live" where
  "add_def l v = l\<lparr>m_defs := live_add (m_defs l) v\<rparr>"

definition add_uses :: "'v Live \<Rightarrow> 'v variable list \<Rightarrow> 'v Live" where
  "add_uses l vs = foldl add_use l vs"

definition add_defs :: "'v Live \<Rightarrow> 'v variable list \<Rightarrow> 'v Live" where
  "add_defs l vs = foldl add_def l vs"

subsection \<open>Statements\<close>

record debug_info =
  m_file :: string
  m_line :: int
  m_col :: int

definition debug_info_default :: debug_info where
  "debug_info_default = \<lparr>m_file = [], m_line = - 1, m_col = - 1\<rparr>"

text \<open>
  The fields of each statement class, in the order of its constructor's parameters
  (for \<open>int_cast_stmt\<close>: op, src, dst; for \<open>callsite_stmt\<close>: name, lhs, args).
\<close>

datatype 'v stmt_fields =
    Binary_op "'v variable" binary_operation "'v linear_expression" "'v linear_expression"
  | Assignment "'v variable" "'v linear_expression"
  | Assume_stmt "'v linear_constraint"
  | Unreachable_stmt
  | Havoc_stmt "'v variable"
  | Select_stmt "'v variable" "'v linear_constraint" "'v linear_expression" "'v linear_expression"
  | Assert_stmt "'v linear_constraint"
  | Int_cast_stmt cast_operation "'v variable" "'v variable"
  | Array_assume_stmt "'v variable" "64 word" "'v linear_expression" "'v linear_expression"
      "'v linear_expression"
  | Array_store_stmt "'v variable" "'v linear_expression" "'v linear_expression" "64 word" bool
  | Array_load_stmt "'v variable" "'v variable" "'v linear_expression" "64 word"
  | Array_assign_stmt "'v variable" "'v variable"
  | Ptr_load_stmt "'v variable" "'v variable"
  | Ptr_store_stmt "'v variable" "'v variable"
  | Ptr_assign_stmt "'v variable" "'v variable" "'v linear_expression"
  | Ptr_object_stmt "'v variable" "64 word"
  | Ptr_function_stmt "'v variable" 'v
  | Ptr_null_stmt "'v variable"
  | Ptr_assume_stmt "'v pointer_constraint"
  | Ptr_assert_stmt "'v pointer_constraint"
  | Callsite_stmt string "'v variable list" "'v variable list"
  | Return_stmt "'v variable list"
  | Bool_assign_cst "'v variable" "'v linear_constraint"
  | Bool_assign_var "'v variable" "'v variable" bool
  | Bool_binary_op "'v variable" bool_binary_operation "'v variable" "'v variable"
  | Bool_assume_stmt "'v variable" bool
  | Bool_select_stmt "'v variable" "'v variable" "'v variable" "'v variable"
  | Bool_assert_stmt "'v variable"

record 'v statement =
  m_live :: "'v Live"
  m_stmt_code :: stmt_code
  m_dbg_info :: debug_info
  m_fields :: "'v stmt_fields"

definition get_live :: "'v statement \<Rightarrow> 'v Live" where
  "get_live s = m_live s"

definition is_number_or_variable :: "'v linear_expression \<Rightarrow> bool" where
  "is_number_or_variable e = (is_constant e \<or> get_variable e \<noteq> None)"

subsubsection \<open>Constructors\<close>

definition binary_op ::
  "'v variable \<Rightarrow> binary_operation \<Rightarrow> 'v linear_expression \<Rightarrow> 'v linear_expression \<Rightarrow>
   debug_info \<Rightarrow> 'v statement" where
  "binary_op lhs op op1 op2 dbg =
     \<lparr>m_live = add_uses (add_uses (add_def Live_empty lhs) (variables op1)) (variables op2),
      m_stmt_code = BIN_OP, m_dbg_info = dbg, m_fields = Binary_op lhs op op1 op2\<rparr>"

definition assignment :: "'v variable \<Rightarrow> 'v linear_expression \<Rightarrow> 'v statement" where
  "assignment lhs rhs =
     \<lparr>m_live = add_uses (add_def Live_empty lhs) (variables rhs),
      m_stmt_code = ASSIGN, m_dbg_info = debug_info_default, m_fields = Assignment lhs rhs\<rparr>"

definition assume_stmt :: "'v linear_constraint \<Rightarrow> 'v statement" where
  "assume_stmt cst =
     \<lparr>m_live = add_uses Live_empty (cst_variables cst),
      m_stmt_code = ASSUME, m_dbg_info = debug_info_default, m_fields = Assume_stmt cst\<rparr>"

definition unreachable_stmt :: "'v statement" where
  "unreachable_stmt =
     \<lparr>m_live = Live_empty, m_stmt_code = UNREACH, m_dbg_info = debug_info_default,
      m_fields = Unreachable_stmt\<rparr>"

definition havoc_stmt :: "'v variable \<Rightarrow> 'v statement" where
  "havoc_stmt lhs =
     \<lparr>m_live = add_def Live_empty lhs,
      m_stmt_code = HAVOC, m_dbg_info = debug_info_default, m_fields = Havoc_stmt lhs\<rparr>"

definition select_stmt ::
  "'v variable \<Rightarrow> 'v linear_constraint \<Rightarrow> 'v linear_expression \<Rightarrow> 'v linear_expression \<Rightarrow>
   'v statement" where
  "select_stmt lhs cond e1 e2 =
     \<lparr>m_live = add_uses (add_uses (add_uses (add_def Live_empty lhs) (cst_variables cond))
                  (variables e1)) (variables e2),
      m_stmt_code = SELECT, m_dbg_info = debug_info_default,
      m_fields = Select_stmt lhs cond e1 e2\<rparr>"

definition assert_stmt :: "'v linear_constraint \<Rightarrow> debug_info \<Rightarrow> 'v statement" where
  "assert_stmt cst dbg =
     \<lparr>m_live = add_uses Live_empty (cst_variables cst),
      m_stmt_code = ASSERT, m_dbg_info = dbg, m_fields = Assert_stmt cst\<rparr>"

definition int_cast_stmt ::
  "cast_operation \<Rightarrow> 'v variable \<Rightarrow> 'v variable \<Rightarrow> debug_info \<Rightarrow> 'v statement" where
  "int_cast_stmt op src dst dbg =
     \<lparr>m_live = add_def (add_use Live_empty src) dst,
      m_stmt_code = INT_CAST, m_dbg_info = dbg, m_fields = Int_cast_stmt op src dst\<rparr>"

definition array_assume_stmt ::
  "'v variable \<Rightarrow> 64 word \<Rightarrow> 'v linear_expression \<Rightarrow> 'v linear_expression \<Rightarrow>
   'v linear_expression \<Rightarrow> crab_error + 'v statement" where
  "array_assume_stmt arr elem_size lb ub val =
     (if \<not> is_number_or_variable lb then
        Inl (CRAB_ERROR ''array_assume third parameter can only be number or variable'')
      else if \<not> is_number_or_variable ub then
        Inl (CRAB_ERROR ''array_assume forth parameter can only be number or variable'')
      else if \<not> is_number_or_variable val then
        Inl (CRAB_ERROR ''array_assume fifth parameter can only be number or variable'')
      else Inr
        \<lparr>m_live = add_uses (add_uses (add_uses (add_use Live_empty arr) (variables lb))
                     (variables ub)) (variables val),
         m_stmt_code = ARR_ASSUME, m_dbg_info = debug_info_default,
         m_fields = Array_assume_stmt arr elem_size lb ub val\<rparr>)"

definition array_store_stmt ::
  "'v variable \<Rightarrow> 'v linear_expression \<Rightarrow> 'v linear_expression \<Rightarrow> 64 word \<Rightarrow> bool \<Rightarrow>
   crab_error + 'v statement" where
  "array_store_stmt arr index val elem_size is_sing =
     (if type_value (get_type arr) < type_value ARR_BOOL_TYPE then
        Inl (CRAB_ERROR ''array_store must have array type'')
      else if \<not> is_number_or_variable val then
        Inl (CRAB_ERROR ''array_store forth parameter only number or variable'')
      else Inr
        \<lparr>m_live = add_uses (add_uses (add_use Live_empty arr) (variables index)) (variables val),
         m_stmt_code = ARR_STORE, m_dbg_info = debug_info_default,
         m_fields = Array_store_stmt arr index val elem_size is_sing\<rparr>)"

definition array_load_stmt ::
  "'v variable \<Rightarrow> 'v variable \<Rightarrow> 'v linear_expression \<Rightarrow> 64 word \<Rightarrow>
   crab_error + 'v statement" where
  "array_load_stmt lhs arr index elem_size =
     (if type_value (get_type arr) < type_value ARR_BOOL_TYPE then
        Inl (CRAB_ERROR ''array_load must have array type'')
      else Inr
        \<lparr>m_live = add_uses (add_use (add_def Live_empty lhs) arr) (variables index),
         m_stmt_code = ARR_LOAD, m_dbg_info = debug_info_default,
         m_fields = Array_load_stmt lhs arr index elem_size\<rparr>)"

definition array_assign_stmt :: "'v variable \<Rightarrow> 'v variable \<Rightarrow> crab_error + 'v statement" where
  "array_assign_stmt lhs rhs =
     (if type_value (get_type lhs) < type_value ARR_BOOL_TYPE \<or> get_type lhs \<noteq> get_type rhs then
        Inl (CRAB_ERROR ''array_assign must have array type'')
      else Inr
        \<lparr>m_live = add_use (add_def Live_empty lhs) rhs,
         m_stmt_code = ARR_ASSIGN, m_dbg_info = debug_info_default,
         m_fields = Array_assign_stmt lhs rhs\<rparr>)"

definition ptr_load_stmt :: "'v variable \<Rightarrow> 'v variable \<Rightarrow> debug_info \<Rightarrow> 'v statement" where
  "ptr_load_stmt lhs rhs dbg =
     \<lparr>m_live = add_use (add_use Live_empty lhs) rhs,
      m_stmt_code = PTR_LOAD, m_dbg_info = dbg, m_fields = Ptr_load_stmt lhs rhs\<rparr>"

definition ptr_store_stmt :: "'v variable \<Rightarrow> 'v variable \<Rightarrow> debug_info \<Rightarrow> 'v statement" where
  "ptr_store_stmt lhs rhs dbg =
     \<lparr>m_live = add_use (add_use Live_empty lhs) rhs,
      m_stmt_code = PTR_STORE, m_dbg_info = dbg, m_fields = Ptr_store_stmt lhs rhs\<rparr>"

definition ptr_assign_stmt ::
  "'v variable \<Rightarrow> 'v variable \<Rightarrow> 'v linear_expression \<Rightarrow> 'v statement" where
  "ptr_assign_stmt lhs rhs offset =
     \<lparr>m_live = add_use (add_def Live_empty lhs) rhs,
      m_stmt_code = PTR_ASSIGN, m_dbg_info = debug_info_default,
      m_fields = Ptr_assign_stmt lhs rhs offset\<rparr>"

definition ptr_object_stmt :: "'v variable \<Rightarrow> 64 word \<Rightarrow> 'v statement" where
  "ptr_object_stmt lhs address =
     \<lparr>m_live = add_def Live_empty lhs,
      m_stmt_code = PTR_OBJECT, m_dbg_info = debug_info_default,
      m_fields = Ptr_object_stmt lhs address\<rparr>"

definition ptr_function_stmt :: "'v variable \<Rightarrow> 'v \<Rightarrow> 'v statement" where
  "ptr_function_stmt lhs func =
     \<lparr>m_live = add_def Live_empty lhs,
      m_stmt_code = PTR_FUNCTION, m_dbg_info = debug_info_default,
      m_fields = Ptr_function_stmt lhs func\<rparr>"

definition ptr_null_stmt :: "'v variable \<Rightarrow> 'v statement" where
  "ptr_null_stmt lhs =
     \<lparr>m_live = add_def Live_empty lhs,
      m_stmt_code = PTR_NULL, m_dbg_info = debug_info_default, m_fields = Ptr_null_stmt lhs\<rparr>"

fun ptr_cst_live :: "'v pointer_constraint \<Rightarrow> 'v Live" where
  "ptr_cst_live Ptr_tautology = Live_empty"
| "ptr_cst_live Ptr_contradiction = Live_empty"
| "ptr_cst_live (Ptr_unary lhs eq) = add_use Live_empty lhs"
| "ptr_cst_live (Ptr_binary lhs rhs eq) = add_use (add_use Live_empty lhs) rhs"

definition ptr_assume_stmt :: "'v pointer_constraint \<Rightarrow> 'v statement" where
  "ptr_assume_stmt cst =
     \<lparr>m_live = ptr_cst_live cst,
      m_stmt_code = PTR_ASSUME, m_dbg_info = debug_info_default, m_fields = Ptr_assume_stmt cst\<rparr>"

definition ptr_assert_stmt :: "'v pointer_constraint \<Rightarrow> debug_info \<Rightarrow> 'v statement" where
  "ptr_assert_stmt cst dbg =
     \<lparr>m_live = ptr_cst_live cst,
      m_stmt_code = PTR_ASSERT, m_dbg_info = dbg, m_fields = Ptr_assert_stmt cst\<rparr>"

definition callsite_stmt ::
  "string \<Rightarrow> 'v variable list \<Rightarrow> 'v variable list \<Rightarrow> 'v statement" where
  "callsite_stmt func_name lhs args =
     \<lparr>m_live = add_defs (add_uses Live_empty args) lhs,
      m_stmt_code = CALLSITE, m_dbg_info = debug_info_default,
      m_fields = Callsite_stmt func_name lhs args\<rparr>"

definition return_stmt :: "'v variable list \<Rightarrow> 'v statement" where
  "return_stmt ret_vals =
     \<lparr>m_live = add_uses Live_empty ret_vals,
      m_stmt_code = RETURN, m_dbg_info = debug_info_default, m_fields = Return_stmt ret_vals\<rparr>"

definition bool_assign_cst :: "'v variable \<Rightarrow> 'v linear_constraint \<Rightarrow> 'v statement" where
  "bool_assign_cst lhs rhs =
     \<lparr>m_live = add_uses (add_def Live_empty lhs) (cst_variables rhs),
      m_stmt_code = BOOL_ASSIGN_CST, m_dbg_info = debug_info_default,
      m_fields = Bool_assign_cst lhs rhs\<rparr>"

definition bool_assign_var :: "'v variable \<Rightarrow> 'v variable \<Rightarrow> bool \<Rightarrow> 'v statement" where
  "bool_assign_var lhs rhs is_not_rhs =
     \<lparr>m_live = add_use (add_def Live_empty lhs) rhs,
      m_stmt_code = BOOL_ASSIGN_VAR, m_dbg_info = debug_info_default,
      m_fields = Bool_assign_var lhs rhs is_not_rhs\<rparr>"

definition bool_binary_op ::
  "'v variable \<Rightarrow> bool_binary_operation \<Rightarrow> 'v variable \<Rightarrow> 'v variable \<Rightarrow> debug_info \<Rightarrow>
   'v statement" where
  "bool_binary_op lhs op op1 op2 dbg =
     \<lparr>m_live = add_use (add_use (add_def Live_empty lhs) op1) op2,
      m_stmt_code = BOOL_BIN_OP, m_dbg_info = dbg, m_fields = Bool_binary_op lhs op op1 op2\<rparr>"

definition bool_assume_stmt :: "'v variable \<Rightarrow> bool \<Rightarrow> 'v statement" where
  "bool_assume_stmt v is_negated =
     \<lparr>m_live = add_use Live_empty v,
      m_stmt_code = BOOL_ASSUME, m_dbg_info = debug_info_default,
      m_fields = Bool_assume_stmt v is_negated\<rparr>"

definition bool_select_stmt ::
  "'v variable \<Rightarrow> 'v variable \<Rightarrow> 'v variable \<Rightarrow> 'v variable \<Rightarrow> 'v statement" where
  "bool_select_stmt lhs cond b1 b2 =
     \<lparr>m_live = add_use (add_use (add_use (add_def Live_empty lhs) cond) b1) b2,
      m_stmt_code = BOOL_SELECT, m_dbg_info = debug_info_default,
      m_fields = Bool_select_stmt lhs cond b1 b2\<rparr>"

definition bool_assert_stmt :: "'v variable \<Rightarrow> debug_info \<Rightarrow> 'v statement" where
  "bool_assert_stmt v dbg =
     \<lparr>m_live = add_use Live_empty v,
      m_stmt_code = BOOL_ASSERT, m_dbg_info = dbg, m_fields = Bool_assert_stmt v\<rparr>"

subsection \<open>The type checker's visitor\<close>

text \<open>
  Every check raises \<open>CRAB_ERROR\<close> with the text \<open>(type checking) msg in s\<close>; the
  rendering of the statement \<open>s\<close> is left out of the message.
\<close>

definition type_error :: "string \<Rightarrow> crab_error + unit" where
  "type_error msg = Inl (CRAB_ERROR (''(type checking) '' @ msg))"

definition check_num :: "'v variable \<Rightarrow> string \<Rightarrow> crab_error + unit" where
  "check_num v msg =
     (if get_type v \<noteq> INT_TYPE \<and> get_type v \<noteq> REAL_TYPE then type_error msg else Inr ())"

definition check_int_or_bool :: "'v variable \<Rightarrow> string \<Rightarrow> crab_error + unit" where
  "check_int_or_bool v msg =
     (if get_type v \<noteq> INT_TYPE \<and> get_type v \<noteq> BOOL_TYPE then type_error msg else Inr ())"

definition check_int :: "'v variable \<Rightarrow> string \<Rightarrow> crab_error + unit" where
  "check_int v msg =
     (if get_type v \<noteq> INT_TYPE \<or> get_bitwidth v \<le> 1 then type_error msg else Inr ())"

definition check_bool :: "'v variable \<Rightarrow> string \<Rightarrow> crab_error + unit" where
  "check_bool v msg =
     (if get_type v \<noteq> BOOL_TYPE \<or> get_bitwidth v \<noteq> 1 then type_error msg else Inr ())"

definition check_bitwidth_if_int :: "'v variable \<Rightarrow> string \<Rightarrow> crab_error + unit" where
  "check_bitwidth_if_int v msg =
     (if get_type v = INT_TYPE then (if get_bitwidth v \<le> 1 then type_error msg else Inr ())
      else Inr ())"

definition check_bitwidth_if_bool :: "'v variable \<Rightarrow> string \<Rightarrow> crab_error + unit" where
  "check_bitwidth_if_bool v msg =
     (if get_type v = BOOL_TYPE then (if get_bitwidth v \<noteq> 1 then type_error msg else Inr ())
      else Inr ())"

definition check_same_type :: "'v variable \<Rightarrow> 'v variable \<Rightarrow> string \<Rightarrow> crab_error + unit" where
  "check_same_type v1 v2 msg = (if get_type v1 \<noteq> get_type v2 then type_error msg else Inr ())"

definition check_same_bitwidth ::
  "'v variable \<Rightarrow> 'v variable \<Rightarrow> string \<Rightarrow> crab_error + unit" where
  "check_same_bitwidth v1 v2 msg =
     (if get_type v1 = INT_TYPE \<or> get_type v1 = BOOL_TYPE then
        (if get_bitwidth v1 \<noteq> get_bitwidth v2 then type_error msg else Inr ())
      else Inr ())"

text \<open>
  The loop shared by the visits of assume, assert and boolean assignment of a
  constraint: every variable is numeric and agrees with the first one.
\<close>

definition check_cst_vars ::
  "'v variable list \<Rightarrow> string \<Rightarrow> string \<Rightarrow> string \<Rightarrow> crab_error + unit" where
  "check_cst_vars vars msg_num msg_type msg_width =
     (case vars of
        [] \<Rightarrow> Inr ()
      | first_var # _ \<Rightarrow>
          for_each (\<lambda>v. andthen (check_num v msg_num)
                      (andthen (check_same_type first_var v msg_type)
                         (check_same_bitwidth first_var v msg_width))) vars)"

definition visit_bin_op ::
  "'v variable \<Rightarrow> 'v linear_expression \<Rightarrow> 'v linear_expression \<Rightarrow> crab_error + unit" where
  "visit_bin_op lhs op1 op2 =
     andthen (check_num lhs ''lhs must be integer or real'')
    (andthen (check_bitwidth_if_int lhs ''lhs must be have bitwidth > 1'')
    (andthen
       (case get_variable op1 of
          Some v1 \<Rightarrow>
            andthen (check_same_type lhs v1 ''first operand cannot have different type from lhs'')
              (check_same_bitwidth lhs v1
                 ''first operand cannot have different bitwidth from lhs'')
        | None \<Rightarrow> Inl (CRAB_ERROR ''(type checking) first binary operand must be a variable in ''))
       (case get_variable op2 of
          Some v2 \<Rightarrow>
            andthen (check_same_type lhs v2 ''second operand cannot have different type from lhs'')
              (check_same_bitwidth lhs v2
                 ''second operand cannot have different bitwidth from lhs'')
        | None \<Rightarrow> Inr ())))"

definition visit_assign :: "'v variable \<Rightarrow> 'v linear_expression \<Rightarrow> crab_error + unit" where
  "visit_assign lhs rhs =
     andthen (check_num lhs ''lhs must be integer or real'')
    (andthen (check_bitwidth_if_int lhs ''lhs must be have bitwidth > 1'')
       (for_each (\<lambda>v. andthen
            (check_same_type lhs v ''variable cannot have different type from lhs'')
            (check_same_bitwidth lhs v ''variable cannot have different bitwidth from lhs''))
          (variables rhs)))"

definition visit_select ::
  "'v variable \<Rightarrow> 'v linear_constraint \<Rightarrow> 'v linear_expression \<Rightarrow> 'v linear_expression \<Rightarrow>
   crab_error + unit" where
  "visit_select lhs cond e1 e2 =
     andthen (check_num lhs ''lhs must be integer or real'')
    (andthen (check_bitwidth_if_int lhs ''lhs must be have bitwidth > 1'')
    (andthen
       (for_each (\<lambda>v. andthen
            (check_same_type lhs v ''inconsistent types in select variables'')
            (check_same_bitwidth lhs v ''inconsistent bitwidths in select variables''))
          (variables e1))
    (andthen
       (for_each (\<lambda>v. andthen
            (check_same_type lhs v ''inconsistent types in select variables'')
            (check_same_bitwidth lhs v ''inconsistent bitwidths in select variables''))
          (variables e2))
       (case cst_variables cond of
          [] \<Rightarrow> Inr ()
        | first_var # _ \<Rightarrow>
            for_each (\<lambda>v. andthen (check_num v ''assume variables must be integer or real'')
               (andthen
                  (check_same_type lhs v ''inconsistent types in select condition variables'')
               (andthen
                  (check_same_type first_var v
                     ''inconsistent types in select condition variables'')
                  (check_same_bitwidth first_var v
                     ''inconsistent bitwidths in select condition variables''))))
              (cst_variables cond)))))"

definition visit_int_cast ::
  "cast_operation \<Rightarrow> 'v variable \<Rightarrow> 'v variable \<Rightarrow> crab_error + unit" where
  "visit_int_cast op src dst =
     (case op of
        CAST_TRUNC \<Rightarrow>
          andthen (check_int src ''source operand must be integer'')
         (andthen (check_int_or_bool dst ''destination must be integer or bool'')
         (andthen (check_bitwidth_if_bool dst
                     ''type and bitwidth of destination operand do not match'')
         (andthen (check_bitwidth_if_int dst
                     ''type and bitwidth of destination operand do not match'')
            (if get_bitwidth src \<le> get_bitwidth dst then
               Inl (CRAB_ERROR
                 ''(type checking) bitwidth of source operand must be greater than destination in '')
             else Inr ()))))
      | _ \<Rightarrow>
          andthen (check_int dst ''destination operand must be integer'')
         (andthen (check_int_or_bool src ''source must be integer or bool'')
         (andthen (check_bitwidth_if_bool src
                     ''type and bitwidth of source operand do not match'')
         (andthen (check_bitwidth_if_int src
                     ''type and bitwidth of source operand do not match'')
            (if get_bitwidth dst \<le> get_bitwidth src then
               Inl (CRAB_ERROR
                 ''(type checking) bitwidth of destination must be greater than source in '')
             else Inr ())))))"

definition visit_bool_bin_op ::
  "'v variable \<Rightarrow> 'v variable \<Rightarrow> 'v variable \<Rightarrow> crab_error + unit" where
  "visit_bool_bin_op lhs left right =
     andthen (check_bool lhs ''lhs must be boolean'')
    (andthen (check_bool left ''first operand must be boolean'')
       (check_bool right ''second operand must be boolean''))"

definition visit_bool_assign_cst :: "'v variable \<Rightarrow> 'v linear_constraint \<Rightarrow> crab_error + unit" where
  "visit_bool_assign_cst lhs rhs =
     andthen (check_bool lhs ''lhs must be boolean'')
       (check_cst_vars (cst_variables rhs) ''rhs variables must be integer or real''
          ''inconsistent types in rhs variables'' ''inconsistent bitwidths in rhs variables'')"

definition visit_bool_assign_var :: "'v variable \<Rightarrow> 'v variable \<Rightarrow> crab_error + unit" where
  "visit_bool_assign_var lhs rhs =
     andthen (check_bool lhs ''lhs must be boolean'') (check_bool rhs ''rhs must be boolean'')"

definition visit_bool_select ::
  "'v variable \<Rightarrow> 'v variable \<Rightarrow> 'v variable \<Rightarrow> 'v variable \<Rightarrow> crab_error + unit" where
  "visit_bool_select lhs cond left right =
     andthen (check_bool lhs ''lhs must be boolean'')
    (andthen (check_bool lhs ''condition must be boolean'')
    (andthen (check_bool left ''first operand must be boolean'')
       (check_bool right ''second operand must be boolean'')))"

text \<open>
  \<open>s.accept(&vis)\<close> for the \<open>type_checker_visitor\<close>: the visit of the statement's class;
  havoc, unreachable, call, return, array and pointer statements are not checked.
\<close>

definition type_checker_visit :: "'v statement \<Rightarrow> crab_error + unit" where
  "type_checker_visit s =
     (case m_fields s of
        Binary_op lhs op op1 op2 \<Rightarrow> visit_bin_op lhs op1 op2
      | Assignment lhs rhs \<Rightarrow> visit_assign lhs rhs
      | Assume_stmt cst \<Rightarrow>
          check_cst_vars (cst_variables cst) ''assume variables must be integer or real''
            ''inconsistent types in assume variables''
            ''inconsistent bitwidths in assume variables''
      | Assert_stmt cst \<Rightarrow>
          check_cst_vars (cst_variables cst) ''assert variables must be integer or real''
            ''inconsistent types in assert variables''
            ''inconsistent bitwidths in assert variables''
      | Select_stmt lhs cond e1 e2 \<Rightarrow> visit_select lhs cond e1 e2
      | Int_cast_stmt op src dst \<Rightarrow> visit_int_cast op src dst
      | Bool_binary_op lhs op left right \<Rightarrow> visit_bool_bin_op lhs left right
      | Bool_assign_cst lhs rhs \<Rightarrow> visit_bool_assign_cst lhs rhs
      | Bool_assign_var lhs rhs neg \<Rightarrow> visit_bool_assign_var lhs rhs
      | Bool_assume_stmt c neg \<Rightarrow> check_bool c ''condition must be boolean''
      | Bool_assert_stmt c \<Rightarrow> check_bool c ''condition must be boolean''
      | Bool_select_stmt lhs cond left right \<Rightarrow> visit_bool_select lhs cond left right
      | _ \<Rightarrow> Inr ())"

subsection \<open>Basic blocks\<close>

text \<open>
  Modelled from the spec: \<open>ikos::discrete_domain\<close>, the set of variables a block uses
  or defines; kept as a duplicate-free list, \<open>+=\<close> adds one variable and \<open>|\<close> is the
  union.
\<close>

type_synonym 'v live_domain = "'v variable list"

definition live_domain_join :: "'v live_domain \<Rightarrow> 'v live_domain \<Rightarrow> 'v live_domain" where
  "live_domain_join a b = foldl live_add a b"

text \<open>
  Where two classes of cfg.hpp name a field alike, the later record's field carries a
  suffix: \<open>m_live_bb\<close> is \<open>basic_block::m_live\<close>, \<open>m_track_prec_cfg\<close> is
  \<open>Cfg::m_track_prec\<close>.
\<close>

record ('l, 'v) basic_block =
  m_bb_id :: 'l
  m_stmts :: "'v statement list"
  m_prev :: "'l list"
  m_next :: "'l list"
  m_track_prec :: tracked_precision
  m_insert_point_at_front :: bool
  m_live_bb :: "'v live_domain"

definition insert_adjacent :: "'l list \<Rightarrow> 'l \<Rightarrow> 'l list" where
  "insert_adjacent c e = (if e \<notin> set c then c @ [e] else c)"

definition remove_adjacent :: "'l list \<Rightarrow> 'l \<Rightarrow> 'l list" where
  "remove_adjacent c e = (if e \<in> set c then removeAll e c else c)"

definition basic_block_create :: "'l \<Rightarrow> tracked_precision \<Rightarrow> ('l, 'v) basic_block" where
  "basic_block_create bb_id track_prec =
     \<lparr>m_bb_id = bb_id, m_stmts = [], m_prev = [], m_next = [], m_track_prec = track_prec,
      m_insert_point_at_front = False, m_live_bb = []\<rparr>"

definition bb_insert :: "'v statement \<Rightarrow> ('l, 'v) basic_block \<Rightarrow> ('l, 'v) basic_block" where
  "bb_insert stmt b =
     (let b1 = (if m_insert_point_at_front b
                then b\<lparr>m_stmts := stmt # m_stmts b, m_insert_point_at_front := False\<rparr>
                else b\<lparr>m_stmts := m_stmts b @ [stmt]\<rparr>);
          ls = get_live stmt
      in b1\<lparr>m_live_bb := foldl live_add (foldl live_add (m_live_bb b1) (m_uses ls)) (m_defs ls)\<rparr>)"

definition set_insert_point_front :: "('l, 'v) basic_block \<Rightarrow> ('l, 'v) basic_block" where
  "set_insert_point_front b = b\<lparr>m_insert_point_at_front := True\<rparr>"

subsection \<open>Function declarations\<close>

record 'v function_decl =
  m_func_name :: string
  m_inputs :: "'v variable list"
  m_outputs :: "'v variable list"

definition function_decl ::
  "string \<Rightarrow> 'v variable list \<Rightarrow> 'v variable list \<Rightarrow> crab_error + 'v function_decl" where
  "function_decl func_name inputs outputs =
     (if length (remdups (map var_name (inputs @ outputs))) \<noteq> length inputs + length outputs then
        Inl (CRAB_ERROR (''interprocedural analysis requires that for each function '' @
                         ''its set of inputs and outputs must be disjoint.''))
      else Inr \<lparr>m_func_name = func_name, m_inputs = inputs, m_outputs = outputs\<rparr>)"

text \<open>\<open>unsigned get_num_inputs ()\<close> converts the vector's size to 32 bits.\<close>

definition get_num_inputs :: "'v function_decl \<Rightarrow> nat" where
  "get_num_inputs d = length (m_inputs d) mod 2 ^ 32"

definition get_num_outputs :: "'v function_decl \<Rightarrow> nat" where
  "get_num_outputs d = length (m_outputs d) mod 2 ^ 32"

definition get_input_type :: "'v function_decl \<Rightarrow> nat \<Rightarrow> crab_error + variable_type" where
  "get_input_type d idx =
     (if idx \<ge> length (m_inputs d) then
        Inl (CRAB_ERROR ''Out-of-bound access to function output parameter'')
      else Inr (get_type (m_inputs d ! idx)))"

definition get_output_type :: "'v function_decl \<Rightarrow> nat \<Rightarrow> crab_error + variable_type" where
  "get_output_type d idx =
     (if idx \<ge> length (m_outputs d) then
        Inl (CRAB_ERROR ''Out-of-bound access to function output parameter'')
      else Inr (get_type (m_outputs d ! idx)))"

subsection \<open>The CFG\<close>

text \<open>
  \<open>m_blocks\<close> is the \<open>boost::unordered_map\<close> from labels to blocks, kept as an
  association list with one binding per key; a reference to a block is its key.
  The pair \<open>m_has_exit\<close>, \<open>m_exit\<close> is one optional label: \<open>m_exit\<close> is read only under
  \<open>m_has_exit\<close>.
\<close>

type_synonym ('l, 'v) basic_block_map = "('l \<times> ('l, 'v) basic_block) list"

record ('l, 'v) cfg =
  m_entry :: 'l
  m_exit :: "'l option"
  m_blocks :: "('l, 'v) basic_block_map"
  m_track_prec_cfg :: tracked_precision
  m_func_decl :: "'v function_decl option"

text \<open>\<open>unordered_map::insert\<close> keeps the binding of a key that is already present.\<close>

definition umap_insert :: "'k \<Rightarrow> 'a \<Rightarrow> ('k \<times> 'a) list \<Rightarrow> ('k \<times> 'a) list" where
  "umap_insert k b bs = (if map_of bs k = None then bs @ [(k, b)] else bs)"

definition umap_erase :: "'k \<Rightarrow> ('k \<times> 'a) list \<Rightarrow> ('k \<times> 'a) list" where
  "umap_erase k bs = filter (\<lambda>p. fst p \<noteq> k) bs"

text \<open>A write through a reference to the block with key \<open>k\<close>.\<close>

definition blocks_modify ::
  "'l \<Rightarrow> (('l, 'v) basic_block \<Rightarrow> ('l, 'v) basic_block) \<Rightarrow> ('l, 'v) basic_block_map \<Rightarrow>
   ('l, 'v) basic_block_map" where
  "blocks_modify k f bs = map (\<lambda>p. if fst p = k then (fst p, f (snd p)) else p) bs"

definition Cfg_entry :: "'l \<Rightarrow> tracked_precision \<Rightarrow> ('l, 'v) cfg" where
  "Cfg_entry entry track_prec =
     \<lparr>m_entry = entry, m_exit = None,
      m_blocks = umap_insert entry (basic_block_create entry track_prec) [],
      m_track_prec_cfg = track_prec, m_func_decl = None\<rparr>"

definition Cfg_entry_exit :: "'l \<Rightarrow> 'l \<Rightarrow> tracked_precision \<Rightarrow> ('l, 'v) cfg" where
  "Cfg_entry_exit entry exit track_prec =
     \<lparr>m_entry = entry, m_exit = Some exit,
      m_blocks = umap_insert entry (basic_block_create entry track_prec) [],
      m_track_prec_cfg = track_prec, m_func_decl = None\<rparr>"

definition Cfg_entry_exit_decl ::
  "'l \<Rightarrow> 'l \<Rightarrow> 'v function_decl \<Rightarrow> tracked_precision \<Rightarrow> ('l, 'v) cfg" where
  "Cfg_entry_exit_decl entry exit func_decl track_prec =
     \<lparr>m_entry = entry, m_exit = Some exit,
      m_blocks = umap_insert entry (basic_block_create entry track_prec) [],
      m_track_prec_cfg = track_prec, m_func_decl = Some func_decl\<rparr>"

definition has_exit :: "('l, 'v) cfg \<Rightarrow> bool" where
  "has_exit c = (m_exit c \<noteq> None)"

definition cfg_exit :: "('l, 'v) cfg \<Rightarrow> crab_error + 'l" where
  "cfg_exit c =
     (case m_exit c of Some e \<Rightarrow> Inr e
      | None \<Rightarrow> Inl (CRAB_ERROR ''cfg does not have an exit block''))"

definition set_exit :: "'l \<Rightarrow> ('l, 'v) cfg \<Rightarrow> ('l, 'v) cfg" where
  "set_exit exit c = c\<lparr>m_exit := Some exit\<rparr>"

definition set_func_decl :: "'v function_decl \<Rightarrow> ('l, 'v) cfg \<Rightarrow> ('l, 'v) cfg" where
  "set_func_decl decl c = c\<lparr>m_func_decl := Some decl\<rparr>"

text \<open>The error message of \<open>get_node\<close> is kept without the label and the line number.\<close>

definition get_node :: "'l \<Rightarrow> ('l, 'v) cfg \<Rightarrow> crab_error + ('l, 'v) basic_block" where
  "get_node bb_id c =
     (case map_of (m_blocks c) bb_id of
        None \<Rightarrow> Inl (CRAB_ERROR ''Basic block not found in the CFG'')
      | Some b \<Rightarrow> Inr b)"

text \<open>\<open>Cfg::insert\<close>: the CFG after the call; the block returned is the one at \<open>bb_id\<close>.\<close>

definition cfg_insert :: "'l \<Rightarrow> ('l, 'v) cfg \<Rightarrow> ('l, 'v) cfg" where
  "cfg_insert bb_id c =
     (case map_of (m_blocks c) bb_id of
        Some b \<Rightarrow> c
      | None \<Rightarrow>
          c\<lparr>m_blocks := umap_insert bb_id (basic_block_create bb_id (m_track_prec_cfg c))
                          (m_blocks c)\<rparr>)"

subsection \<open>Hashing and equality of CFGs\<close>

text \<open>
  \<open>boost::hash_value\<close> on the function's name and \<open>boost::hash_combine\<close> belong to
  Boost; they are the parameters \<open>hs\<close> and \<open>hc\<close>. \<open>size_t\<close> has 64 bits.
\<close>

definition hash_types ::
  "(64 word \<Rightarrow> variable_type \<Rightarrow> 64 word) \<Rightarrow> (nat \<Rightarrow> crab_error + variable_type) \<Rightarrow> nat \<Rightarrow>
   64 word \<Rightarrow> crab_error + 64 word" where
  "hash_types hc type_at n res =
     fold (\<lambda>i acc. bind_err acc (\<lambda>r. bind_err (type_at i) (\<lambda>t. Inr (hc r t)))) [0..<n] (Inr res)"

definition cfg_hasher_hash ::
  "(string \<Rightarrow> 64 word) \<Rightarrow> (64 word \<Rightarrow> variable_type \<Rightarrow> 64 word) \<Rightarrow> 'v function_decl \<Rightarrow>
   crab_error + 64 word" where
  "cfg_hasher_hash hs hc d =
     bind_err (hash_types hc (get_input_type d) (get_num_inputs d) (hs (m_func_name d)))
       (\<lambda>res. hash_types hc (get_output_type d) (get_num_outputs d) res)"

definition hash_value ::
  "(string \<Rightarrow> 64 word) \<Rightarrow> (64 word \<Rightarrow> variable_type \<Rightarrow> 64 word) \<Rightarrow> ('l, 'v) cfg \<Rightarrow>
   crab_error + 64 word" where
  "hash_value hs hc c =
     (case m_func_decl c of
        None \<Rightarrow> Inl (CRAB_ERROR ''cannot hash a cfg because function declaration is missing'')
      | Some fdecl \<Rightarrow> cfg_hasher_hash hs hc fdecl)"

text \<open>\<open>operator==\<close> on two CFGs.\<close>

definition cfg_equal ::
  "(string \<Rightarrow> 64 word) \<Rightarrow> (64 word \<Rightarrow> variable_type \<Rightarrow> 64 word) \<Rightarrow> ('l, 'v) cfg \<Rightarrow>
   ('l, 'v) cfg \<Rightarrow> crab_error + bool" where
  "cfg_equal hs hc a b =
     bind_err (hash_value hs hc a) (\<lambda>ha. bind_err (hash_value hs hc b) (\<lambda>hb. Inr (ha = hb)))"

subsection \<open>Statement builders of a block\<close>

definition havoc :: "'v variable \<Rightarrow> ('l, 'v) basic_block \<Rightarrow> ('l, 'v) basic_block" where
  "havoc lhs b = bb_insert (havoc_stmt lhs) b"

definition assign ::
  "'v variable \<Rightarrow> 'v linear_expression \<Rightarrow> ('l, 'v) basic_block \<Rightarrow> ('l, 'v) basic_block" where
  "assign lhs rhs b = bb_insert (assignment lhs rhs) b"

text \<open>\<open>basic_block::assume\<close> (the name is a keyword of the proof language).\<close>

definition assume_cst ::
  "'v linear_constraint \<Rightarrow> ('l, 'v) basic_block \<Rightarrow> ('l, 'v) basic_block" where
  "assume_cst cst b = bb_insert (assume_stmt cst) b"

definition bool_assume :: "'v variable \<Rightarrow> ('l, 'v) basic_block \<Rightarrow> ('l, 'v) basic_block" where
  "bool_assume c b = bb_insert (bool_assume_stmt c False) b"

definition bool_select ::
  "'v variable \<Rightarrow> 'v variable \<Rightarrow> 'v variable \<Rightarrow> 'v variable \<Rightarrow> ('l, 'v) basic_block \<Rightarrow>
   ('l, 'v) basic_block" where
  "bool_select lhs cond b1 b2 b = bb_insert (bool_select_stmt lhs cond b1 b2) b"

text \<open>
  The array builders act when the block's precision is \<open>ARR\<close>, the pointer builders
  when it is at least \<open>PTR\<close>; the statement is constructed inside the guard.
\<close>

definition array_assume ::
  "'v variable \<Rightarrow> 64 word \<Rightarrow> 'v linear_expression \<Rightarrow> 'v linear_expression \<Rightarrow>
   'v linear_expression \<Rightarrow> ('l, 'v) basic_block \<Rightarrow> crab_error + ('l, 'v) basic_block" where
  "array_assume a elem_size lb_idx ub_idx v b =
     (if m_track_prec b = ARR then
        bind_err (array_assume_stmt a elem_size lb_idx ub_idx v) (\<lambda>s. Inr (bb_insert s b))
      else Inr b)"

definition array_store ::
  "'v variable \<Rightarrow> 'v linear_expression \<Rightarrow> 'v linear_expression \<Rightarrow> 64 word \<Rightarrow> bool \<Rightarrow>
   ('l, 'v) basic_block \<Rightarrow> crab_error + ('l, 'v) basic_block" where
  "array_store arr idx v elem_size is_sing b =
     (if m_track_prec b = ARR then
        bind_err (array_store_stmt arr idx v elem_size is_sing) (\<lambda>s. Inr (bb_insert s b))
      else Inr b)"

definition array_load ::
  "'v variable \<Rightarrow> 'v variable \<Rightarrow> 'v linear_expression \<Rightarrow> 64 word \<Rightarrow>
   ('l, 'v) basic_block \<Rightarrow> crab_error + ('l, 'v) basic_block" where
  "array_load lhs arr idx elem_size b =
     (if m_track_prec b = ARR then
        bind_err (array_load_stmt lhs arr idx elem_size) (\<lambda>s. Inr (bb_insert s b))
      else Inr b)"

definition array_assign ::
  "'v variable \<Rightarrow> 'v variable \<Rightarrow> ('l, 'v) basic_block \<Rightarrow>
   crab_error + ('l, 'v) basic_block" where
  "array_assign lhs rhs b =
     (if m_track_prec b = ARR then
        bind_err (array_assign_stmt lhs rhs) (\<lambda>s. Inr (bb_insert s b))
      else Inr b)"

definition ptr_store ::
  "'v variable \<Rightarrow> 'v variable \<Rightarrow> ('l, 'v) basic_block \<Rightarrow>
   crab_error + ('l, 'v) basic_block" where
  "ptr_store lhs rhs b =
     (if prec_value (m_track_prec b) \<ge> prec_value PTR then
        Inr (bb_insert (ptr_store_stmt lhs rhs debug_info_default) b)
      else Inr b)"

definition ptr_load ::
  "'v variable \<Rightarrow> 'v variable \<Rightarrow> ('l, 'v) basic_block \<Rightarrow>
   crab_error + ('l, 'v) basic_block" where
  "ptr_load lhs rhs b =
     (if prec_value (m_track_prec b) \<ge> prec_value PTR then
        Inr (bb_insert (ptr_load_stmt lhs rhs debug_info_default) b)
      else Inr b)"

definition ptr_assign ::
  "'v variable \<Rightarrow> 'v variable \<Rightarrow> 'v linear_expression \<Rightarrow> ('l, 'v) basic_block \<Rightarrow>
   crab_error + ('l, 'v) basic_block" where
  "ptr_assign lhs rhs offset b =
     (if prec_value (m_track_prec b) \<ge> prec_value PTR then
        Inr (bb_insert (ptr_assign_stmt lhs rhs offset) b)
      else Inr b)"

definition ptr_new_object ::
  "'v variable \<Rightarrow> 64 word \<Rightarrow> ('l, 'v) basic_block \<Rightarrow> crab_error + ('l, 'v) basic_block" where
  "ptr_new_object lhs address b =
     (if prec_value (m_track_prec b) \<ge> prec_value PTR then
        Inr (bb_insert (ptr_object_stmt lhs address) b)
      else Inr b)"

text \<open>
  \<open>ptr_new_func\<close> receives the function as an \<open>ikos::index_t\<close> and hands it to the
  statement's constructor as a \<open>VariableName\<close>; the model takes the name.
\<close>

definition ptr_new_func ::
  "'v variable \<Rightarrow> 'v \<Rightarrow> ('l, 'v) basic_block \<Rightarrow> crab_error + ('l, 'v) basic_block" where
  "ptr_new_func lhs func b =
     (if prec_value (m_track_prec b) \<ge> prec_value PTR then
        Inr (bb_insert (ptr_function_stmt lhs func) b)
      else Inr b)"

definition ptr_null ::
  "'v variable \<Rightarrow> ('l, 'v) basic_block \<Rightarrow> crab_error + ('l, 'v) basic_block" where
  "ptr_null lhs b =
     (if prec_value (m_track_prec b) \<ge> prec_value PTR then
        Inr (bb_insert (ptr_null_stmt lhs) b)
      else Inr b)"

definition ptr_assume ::
  "'v pointer_constraint \<Rightarrow> ('l, 'v) basic_block \<Rightarrow> crab_error + ('l, 'v) basic_block" where
  "ptr_assume cst b =
     (if prec_value (m_track_prec b) \<ge> prec_value PTR then
        Inr (bb_insert (ptr_assume_stmt cst) b)
      else Inr b)"

definition ptr_assertion ::
  "'v pointer_constraint \<Rightarrow> ('l, 'v) basic_block \<Rightarrow> crab_error + ('l, 'v) basic_block" where
  "ptr_assertion cst b =
     (if prec_value (m_track_prec b) \<ge> prec_value PTR then
        Inr (bb_insert (ptr_assert_stmt cst debug_info_default) b)
      else Inr b)"

definition ptr_assertion_di ::
  "'v pointer_constraint \<Rightarrow> debug_info \<Rightarrow> ('l, 'v) basic_block \<Rightarrow>
   crab_error + ('l, 'v) basic_block" where
  "ptr_assertion_di cst di b =
     (if prec_value (m_track_prec b) \<ge> prec_value PTR then
        Inr (bb_insert (ptr_assert_stmt cst di) b)
      else Inr b)"

subsection \<open>Edges between blocks\<close>

text \<open>
  \<open>operator>>\<close> and \<open>operator-=\<close> of \<open>basic_block\<close>. Both operands are references
  to blocks of the table, given by their keys; the second write goes to the block as
  the first write left it, so that an operator applied to one block twice (a
  self-loop) acts on one object.
\<close>

definition operator_rshift ::
  "'l \<Rightarrow> 'l \<Rightarrow> ('l, 'v) basic_block_map \<Rightarrow> ('l, 'v) basic_block_map" where
  "operator_rshift this b bs =
     (case (map_of bs this, map_of bs b) of
        (Some x, Some y) \<Rightarrow>
          blocks_modify b (\<lambda>t. t\<lparr>m_prev := insert_adjacent (m_prev t) (m_bb_id x)\<rparr>)
            (blocks_modify this (\<lambda>t. t\<lparr>m_next := insert_adjacent (m_next t) (m_bb_id y)\<rparr>) bs)
      | _ \<Rightarrow> bs)"

definition operator_minus_assign ::
  "'l \<Rightarrow> 'l \<Rightarrow> ('l, 'v) basic_block_map \<Rightarrow> ('l, 'v) basic_block_map" where
  "operator_minus_assign this b bs =
     (case (map_of bs this, map_of bs b) of
        (Some x, Some y) \<Rightarrow>
          blocks_modify b (\<lambda>t. t\<lparr>m_prev := remove_adjacent (m_prev t) (m_bb_id x)\<rparr>)
            (blocks_modify this (\<lambda>t. t\<lparr>m_next := remove_adjacent (m_next t) (m_bb_id y)\<rparr>) bs)
      | _ \<Rightarrow> bs)"

text \<open>\<open>merge_back\<close>: the statements of \<open>other\<close> go to the back of the block at \<open>this\<close>.\<close>

definition merge_back ::
  "'l \<Rightarrow> ('l, 'v) basic_block \<Rightarrow> ('l, 'v) basic_block_map \<Rightarrow> ('l, 'v) basic_block_map" where
  "merge_back this other bs =
     blocks_modify this
       (\<lambda>t. t\<lparr>m_stmts := m_stmts t @ m_stmts other,
              m_live_bb := live_domain_join (m_live_bb t) (m_live_bb other)\<rparr>) bs"

definition next_nodes :: "'l \<Rightarrow> ('l, 'v) cfg \<Rightarrow> crab_error + 'l list" where
  "next_nodes bb_id c = bind_err (get_node bb_id c) (\<lambda>b. Inr (m_next b))"

definition prev_nodes :: "'l \<Rightarrow> ('l, 'v) cfg \<Rightarrow> crab_error + 'l list" where
  "prev_nodes bb_id c = bind_err (get_node bb_id c) (\<lambda>b. Inr (m_prev b))"

subsection \<open>Removing a block\<close>

text \<open>
  The two loops of \<open>Cfg::remove\<close> that collect the edges to delete: every neighbour
  other than the block itself is looked up with \<open>get_node\<close>.
\<close>

fun dead_edges ::
  "('l \<Rightarrow> 'l \<times> 'l) \<Rightarrow> 'l \<Rightarrow> ('l, 'v) cfg \<Rightarrow> 'l list \<Rightarrow> crab_error + ('l \<times> 'l) list" where
  "dead_edges mk bb_id c [] = Inr []"
| "dead_edges mk bb_id c (i # is) =
     (if bb_id \<noteq> i then
        bind_err (get_node i c) (\<lambda>_.
          bind_err (dead_edges mk bb_id c is) (\<lambda>dead. Inr (mk i # dead)))
      else dead_edges mk bb_id c is)"

definition remove :: "'l \<Rightarrow> ('l, 'v) cfg \<Rightarrow> crab_error + ('l, 'v) cfg" where
  "remove bb_id c =
     bind_err (get_node bb_id c) (\<lambda>bb.
     bind_err (dead_edges (\<lambda>i. (i, bb_id)) bb_id c (m_prev bb)) (\<lambda>dead_prev.
     bind_err (dead_edges (\<lambda>i. (bb_id, i)) bb_id c (m_next bb)) (\<lambda>dead_next.
       Inr (c\<lparr>m_blocks :=
              umap_erase bb_id
                (fold (\<lambda>p. operator_minus_assign (fst p) (snd p)) (dead_prev @ dead_next)
                   (m_blocks c))\<rparr>))))"

subsection \<open>Cloning\<close>

text \<open>
  \<open>statement::clone\<close>: each class calls its constructor on its fields; the classes
  whose constructor takes a \<open>debug_info\<close> pass theirs on, except \<open>ptr_store_stmt\<close>.
\<close>

definition stmt_clone :: "'v statement \<Rightarrow> crab_error + 'v statement" where
  "stmt_clone s =
     (case m_fields s of
        Binary_op lhs op op1 op2 \<Rightarrow> Inr (binary_op lhs op op1 op2 (m_dbg_info s))
      | Assignment lhs rhs \<Rightarrow> Inr (assignment lhs rhs)
      | Assume_stmt cst \<Rightarrow> Inr (assume_stmt cst)
      | Unreachable_stmt \<Rightarrow> Inr unreachable_stmt
      | Havoc_stmt lhs \<Rightarrow> Inr (havoc_stmt lhs)
      | Select_stmt lhs cond e1 e2 \<Rightarrow> Inr (select_stmt lhs cond e1 e2)
      | Assert_stmt cst \<Rightarrow> Inr (assert_stmt cst (m_dbg_info s))
      | Int_cast_stmt op src dst \<Rightarrow> Inr (int_cast_stmt op src dst (m_dbg_info s))
      | Array_assume_stmt arr elem_size lb ub val \<Rightarrow> array_assume_stmt arr elem_size lb ub val
      | Array_store_stmt arr index val elem_size is_sing \<Rightarrow>
          array_store_stmt arr index val elem_size is_sing
      | Array_load_stmt lhs arr index elem_size \<Rightarrow> array_load_stmt lhs arr index elem_size
      | Array_assign_stmt lhs rhs \<Rightarrow> array_assign_stmt lhs rhs
      | Ptr_load_stmt lhs rhs \<Rightarrow> Inr (ptr_load_stmt lhs rhs (m_dbg_info s))
      | Ptr_store_stmt lhs rhs \<Rightarrow> Inr (ptr_store_stmt lhs rhs debug_info_default)
      | Ptr_assign_stmt lhs rhs offset \<Rightarrow> Inr (ptr_assign_stmt lhs rhs offset)
      | Ptr_object_stmt lhs address \<Rightarrow> Inr (ptr_object_stmt lhs address)
      | Ptr_function_stmt lhs func \<Rightarrow> Inr (ptr_function_stmt lhs func)
      | Ptr_null_stmt lhs \<Rightarrow> Inr (ptr_null_stmt lhs)
      | Ptr_assume_stmt cst \<Rightarrow> Inr (ptr_assume_stmt cst)
      | Ptr_assert_stmt cst \<Rightarrow> Inr (ptr_assert_stmt cst (m_dbg_info s))
      | Callsite_stmt func_name lhs args \<Rightarrow> Inr (callsite_stmt func_name lhs args)
      | Return_stmt ret \<Rightarrow> Inr (return_stmt ret)
      | Bool_assign_cst lhs rhs \<Rightarrow> Inr (bool_assign_cst lhs rhs)
      | Bool_assign_var lhs rhs neg \<Rightarrow> Inr (bool_assign_var lhs rhs neg)
      | Bool_binary_op lhs op op1 op2 \<Rightarrow> Inr (bool_binary_op lhs op op1 op2 (m_dbg_info s))
      | Bool_assume_stmt v neg \<Rightarrow> Inr (bool_assume_stmt v neg)
      | Bool_select_stmt lhs cond b1 b2 \<Rightarrow> Inr (bool_select_stmt lhs cond b1 b2)
      | Bool_assert_stmt v \<Rightarrow> Inr (bool_assert_stmt v (m_dbg_info s)))"

fun clone_stmts :: "'v statement list \<Rightarrow> crab_error + 'v statement list" where
  "clone_stmts [] = Inr []"
| "clone_stmts (s # ss) =
     bind_err (stmt_clone s) (\<lambda>s'. bind_err (clone_stmts ss) (\<lambda>ss'. Inr (s' # ss')))"

definition bb_clone :: "('l, 'v) basic_block \<Rightarrow> crab_error + ('l, 'v) basic_block" where
  "bb_clone b =
     bind_err (clone_stmts (m_stmts b)) (\<lambda>stmts.
       Inr ((basic_block_create (m_bb_id b) (m_track_prec b))
              \<lparr>m_stmts := stmts, m_prev := m_prev b, m_next := m_next b,
               m_live_bb := m_live_bb b\<rparr>))"

text \<open>
  \<open>Cfg::clone\<close>: the new CFG comes from the constructor \<open>Cfg (entry, track_prec)\<close>,
  which already holds an empty entry block; every block of the original is cloned and
  handed to \<open>m_blocks.insert\<close>.
\<close>

fun clone_blocks ::
  "('l, 'v) basic_block_map \<Rightarrow> ('l, 'v) basic_block_map \<Rightarrow> crab_error + ('l, 'v) basic_block_map"
  where
  "clone_blocks [] acc = Inr acc"
| "clone_blocks (kb # rest) acc =
     bind_err (bb_clone (snd kb)) (\<lambda>copyBB.
       clone_blocks rest (umap_insert (m_bb_id copyBB) copyBB acc))"

definition cfg_clone :: "('l, 'v) cfg \<Rightarrow> crab_error + ('l, 'v) cfg" where
  "cfg_clone c =
     (let c0 = (Cfg_entry (m_entry c) (m_track_prec_cfg c))
                 \<lparr>m_exit := m_exit c, m_func_decl := m_func_decl c\<rparr>
      in bind_err (clone_blocks (m_blocks c) (m_blocks c0)) (\<lambda>bs. Inr (c0\<lparr>m_blocks := bs\<rparr>)))"

subsection \<open>The reversed view\<close>

text \<open>
  \<open>cfg_rev\<close> holds a reference to the CFG and a table of \<open>basic_block_rev\<close> views,
  each a reference to a block of that CFG.
\<close>

datatype 'l basic_block_rev = Basic_block_rev 'l

record ('l, 'v) cfg_rev =
  rev_cfg :: "('l, 'v) cfg"
  rev_bbs :: "('l \<times> 'l basic_block_rev) list"

text \<open>The constructor \<open>cfg_rev (CFGRef cfg)\<close>; it has no failing branch.\<close>

definition cfg_rev :: "('l, 'v) cfg \<Rightarrow> crab_error + ('l, 'v) cfg_rev" where
  "cfg_rev c =
     Inr \<lparr>rev_cfg = c,
          rev_bbs = fold (\<lambda>kb acc. umap_insert (m_bb_id (snd kb)) (Basic_block_rev (fst kb)) acc)
                      (m_blocks c) []\<rparr>"

definition cfg_rev_entry :: "('l, 'v) cfg_rev \<Rightarrow> crab_error + 'l" where
  "cfg_rev_entry r =
     (if \<not> has_exit (rev_cfg r) then Inl (CRAB_ERROR ''Entry not found!'')
      else cfg_exit (rev_cfg r))"

definition cfg_rev_exit :: "('l, 'v) cfg_rev \<Rightarrow> 'l" where
  "cfg_rev_exit r = m_entry (rev_cfg r)"

definition cfg_rev_has_exit :: "('l, 'v) cfg_rev \<Rightarrow> bool" where
  "cfg_rev_has_exit r = True"

definition cfg_rev_next_nodes :: "('l, 'v) cfg_rev \<Rightarrow> 'l \<Rightarrow> crab_error + 'l list" where
  "cfg_rev_next_nodes r bb = prev_nodes bb (rev_cfg r)"

definition cfg_rev_prev_nodes :: "('l, 'v) cfg_rev \<Rightarrow> 'l \<Rightarrow> crab_error + 'l list" where
  "cfg_rev_prev_nodes r bb = next_nodes bb (rev_cfg r)"

subsection \<open>Invariants of the block table\<close>

text \<open>
  The table holds one binding per key and every block is stored under its own label
  (\<open>Cfg::insert\<close> and \<open>Cfg::clone\<close> insert a block under \<open>label ()\<close>).
\<close>

definition blocks_wf :: "('l, 'v) basic_block_map \<Rightarrow> bool" where
  "blocks_wf bs = (distinct (map fst bs) \<and> (\<forall>kb \<in> set bs. m_bb_id (snd kb) = fst kb))"

text \<open>
  Adjacency symmetry: for all blocks A and B of the table, B's label is among A's
  successors iff A's label is among B's predecessors.
\<close>

definition adjacency_symmetric :: "('l, 'v) basic_block_map \<Rightarrow> bool" where
  "adjacency_symmetric bs =
     (\<forall>ka \<in> set bs. \<forall>kb \<in> set bs.
        (m_bb_id (snd kb) \<in> set (m_next (snd ka))) = (m_bb_id (snd ka) \<in> set (m_prev (snd kb))))"

text \<open>
  The adjacency lists name blocks of the table only: no edge leads to a label without
  a block.
\<close>

definition adjacency_closed :: "('l, 'v) basic_block_map \<Rightarrow> bool" where
  "adjacency_closed bs =
     (\<forall>kb \<in> set bs. set (m_next (snd kb)) \<subseteq> fst ` set bs \<and> set (m_prev (snd kb)) \<subseteq> fst ` set bs)"

subsection \<open>Example CFGs\<close>

text \<open>
  An entry block \<open>0\<close> holding \<open>havoc x\<close> with an edge to a block \<open>1\<close>, built with
  the constructor, \<open>insert\<close>, \<open>havoc\<close> and \<open>operator>>\<close>.
\<close>

definition two_block_cfg :: "(nat, string) cfg" where
  "two_block_cfg =
     (let c1 = cfg_insert 1 (Cfg_entry 0 NUM);
          c2 = c1\<lparr>m_blocks := blocks_modify 0
                  (havoc \<lparr>var_name = ''x'', get_type = INT_TYPE, get_bitwidth = 32\<rparr>)
                  (m_blocks c1)\<rparr>
      in c2\<lparr>m_blocks := operator_rshift 0 1 (m_blocks c2)\<rparr>)"

subsection \<open>Simplification\<close>

text \<open>
  The recursive passes of \<open>Cfg::simplify\<close> take a bound on the number of nested calls
  and loop steps; \<open>None\<close> is a run that exceeded it. A pass that raises \<open>CRAB_ERROR\<close>
  is \<open>Some (Inl e)\<close>.
\<close>

definition lift_err ::
  "crab_error + 'a \<Rightarrow> ('a \<Rightarrow> (crab_error + 'b) option) \<Rightarrow> (crab_error + 'b) option" where
  "lift_err r k = (case r of Inl e \<Rightarrow> Some (Inl e) | Inr x \<Rightarrow> k x)"

definition then_pass ::
  "(crab_error + 'a) option \<Rightarrow> ('a \<Rightarrow> (crab_error + 'b) option) \<Rightarrow> (crab_error + 'b) option"
  where
  "then_pass r k = (case r of None \<Rightarrow> None | Some (Inl e) \<Rightarrow> Some (Inl e) | Some (Inr x) \<Rightarrow> k x)"

text \<open>
  \<open>donot_simplify_visitor\<close>: the visits of assume, boolean assume and array load
  set the flag, every other visit leaves it.
\<close>

definition donot_simplify_visit :: "'v statement \<Rightarrow> bool \<Rightarrow> bool" where
  "donot_simplify_visit s do_not_simplify =
     (case m_fields s of
        Assume_stmt cst \<Rightarrow> True
      | Bool_assume_stmt v neg \<Rightarrow> True
      | Array_load_stmt lhs arr index elem_size \<Rightarrow> True
      | _ \<Rightarrow> do_not_simplify)"

definition has_one_child :: "'l \<Rightarrow> ('l, 'v) cfg \<Rightarrow> crab_error + bool" where
  "has_one_child b c = bind_err (next_nodes b c) (\<lambda>rng. Inr (length rng = 1))"

definition has_one_parent :: "'l \<Rightarrow> ('l, 'v) cfg \<Rightarrow> crab_error + bool" where
  "has_one_parent b c = bind_err (prev_nodes b c) (\<lambda>rng. Inr (length rng = 1))"

text \<open>
  \<open>get_child\<close> and \<open>get_parent\<close> return a reference to the only neighbour: its key
  and the block there. Their \<open>assert\<close> is an error of the model.
\<close>

definition get_child :: "'l \<Rightarrow> ('l, 'v) cfg \<Rightarrow> crab_error + 'l \<times> ('l, 'v) basic_block" where
  "get_child b c =
     bind_err (has_one_child b c) (\<lambda>one.
       if \<not> one then Inl (CRAB_ERROR ''assert (has_one_child (b))'')
       else bind_err (next_nodes b c) (\<lambda>rng.
              bind_err (get_node (hd rng) c) (\<lambda>blk. Inr (hd rng, blk))))"

definition get_parent :: "'l \<Rightarrow> ('l, 'v) cfg \<Rightarrow> crab_error + 'l \<times> ('l, 'v) basic_block" where
  "get_parent b c =
     bind_err (has_one_parent b c) (\<lambda>one.
       if \<not> one then Inl (CRAB_ERROR ''assert (has_one_parent (b))'')
       else bind_err (prev_nodes b c) (\<lambda>rng.
              bind_err (get_node (hd rng) c) (\<lambda>blk. Inr (hd rng, blk))))"

text \<open>
  \<open>merge_blocks_rec\<close>. The state is the CFG and the visited set. The loop over
  \<open>cur.next_blocks ()\<close> ranges over the successors of \<open>cur\<close> as they are when the loop
  starts; the C++ loop walks the vector itself, which a fusion into \<open>cur\<close> further
  down rewrites.
\<close>

fun merge_blocks_rec ::
    "nat \<Rightarrow> 'l \<Rightarrow> ('l, 'v) cfg \<times> 'l set \<Rightarrow> (crab_error + ('l, 'v) cfg \<times> 'l set) option"
  and merge_blocks_next ::
    "nat \<Rightarrow> 'l list \<Rightarrow> ('l, 'v) cfg \<times> 'l set \<Rightarrow> (crab_error + ('l, 'v) cfg \<times> 'l set) option"
  where
  "merge_blocks_rec 0 curId s = None"
| "merge_blocks_rec (Suc fuel) curId s =
     (if curId \<in> snd s then Some (Inr s)
      else
        lift_err (get_node curId (fst s)) (\<lambda>cur.
        lift_err (has_one_child curId (fst s)) (\<lambda>one_child.
        lift_err (if one_child then has_one_parent curId (fst s) else Inr False) (\<lambda>one_each.
          if one_each then
            lift_err (get_parent curId (fst s)) (\<lambda>parent.
            lift_err (get_child curId (fst s)) (\<lambda>child.
              if \<not> fold donot_simplify_visit (m_stmts cur) False then
                lift_err
                  (remove curId
                     ((fst s)\<lparr>m_blocks := merge_back (fst parent) cur (m_blocks (fst s))\<rparr>))
                  (\<lambda>c2.
                     merge_blocks_rec fuel (m_bb_id (snd child))
                       (c2\<lparr>m_blocks := operator_rshift (fst parent) (fst child) (m_blocks c2)\<rparr>,
                        insert curId (snd s)))
              else merge_blocks_next fuel (m_next cur) (fst s, insert curId (snd s))))
          else merge_blocks_next fuel (m_next cur) (fst s, insert curId (snd s))))))"
| "merge_blocks_next 0 ns s = None"
| "merge_blocks_next (Suc fuel) [] s = Some (Inr s)"
| "merge_blocks_next (Suc fuel) (n # ns) s =
     then_pass (merge_blocks_rec (Suc fuel) n s) (\<lambda>s'. merge_blocks_next fuel ns s')"

definition merge_blocks :: "nat \<Rightarrow> ('l, 'v) cfg \<Rightarrow> (crab_error + ('l, 'v) cfg) option" where
  "merge_blocks fuel c =
     then_pass (merge_blocks_rec fuel (m_entry c) (c, {})) (\<lambda>s. Some (Inr (fst s)))"

text \<open>
  \<open>mark_alive_blocks\<close> on any CFG view, given by its \<open>next_nodes\<close>.
\<close>

fun mark_alive_blocks ::
    "nat \<Rightarrow> ('l \<Rightarrow> crab_error + 'l list) \<Rightarrow> 'l \<Rightarrow> 'l set \<Rightarrow> (crab_error + 'l set) option"
  and mark_alive_children ::
    "nat \<Rightarrow> ('l \<Rightarrow> crab_error + 'l list) \<Rightarrow> 'l list \<Rightarrow> 'l set \<Rightarrow> (crab_error + 'l set) option"
  where
  "mark_alive_blocks 0 nx curId visited = None"
| "mark_alive_blocks (Suc fuel) nx curId visited =
     (if curId \<in> visited then Some (Inr visited)
      else lift_err (nx curId) (\<lambda>children.
             mark_alive_children fuel nx children (insert curId visited)))"
| "mark_alive_children 0 nx cs visited = None"
| "mark_alive_children (Suc fuel) nx [] visited = Some (Inr visited)"
| "mark_alive_children (Suc fuel) nx (child # cs) visited =
     then_pass (mark_alive_blocks (Suc fuel) nx child visited)
       (\<lambda>visited'. mark_alive_children fuel nx cs visited')"

fun remove_all :: "'l list \<Rightarrow> ('l, 'v) cfg \<Rightarrow> crab_error + ('l, 'v) cfg" where
  "remove_all [] c = Inr c"
| "remove_all (bb_id # rest) c = bind_err (remove bb_id c) (remove_all rest)"

definition remove_unreachable_blocks ::
  "nat \<Rightarrow> ('l, 'v) cfg \<Rightarrow> (crab_error + ('l, 'v) cfg) option" where
  "remove_unreachable_blocks fuel c =
     then_pass (mark_alive_blocks fuel (\<lambda>b. next_nodes b c) (m_entry c) {}) (\<lambda>alive.
       Some (remove_all
               (filter (\<lambda>l. l \<notin> alive) (map (\<lambda>kb. m_bb_id (snd kb)) (m_blocks c))) c))"

definition remove_useless_blocks ::
  "nat \<Rightarrow> ('l, 'v) cfg \<Rightarrow> (crab_error + ('l, 'v) cfg) option" where
  "remove_useless_blocks fuel c =
     (if \<not> has_exit c then Some (Inr c)
      else
        lift_err (cfg_rev c) (\<lambda>rev.
        lift_err (cfg_rev_entry rev) (\<lambda>entry.
        then_pass (mark_alive_blocks fuel (cfg_rev_next_nodes rev) entry {}) (\<lambda>useful.
          Some (remove_all
                  (filter (\<lambda>l. l \<notin> useful) (map (\<lambda>kb. m_bb_id (snd kb)) (m_blocks c))) c)))))"

definition simplify :: "nat \<Rightarrow> ('l, 'v) cfg \<Rightarrow> (crab_error + ('l, 'v) cfg) option" where
  "simplify fuel c =
     then_pass (merge_blocks fuel c) (\<lambda>c1.
     then_pass (remove_unreachable_blocks fuel c1) (\<lambda>c2.
     then_pass (remove_useless_blocks fuel c2) (\<lambda>c3.
     then_pass (merge_blocks fuel c3) (\<lambda>c4.
       merge_blocks fuel c4))))"

text \<open>
  An entry block \<open>0\<close> with the two successors \<open>1\<close> and \<open>2\<close>; block \<open>2\<close> holds
  \<open>havoc y\<close> and has the one successor \<open>3\<close>.
\<close>

definition branching_cfg :: "(nat, string) cfg" where
  "branching_cfg =
     (let c1 = cfg_insert 3 (cfg_insert 2 (cfg_insert 1 (Cfg_entry 0 NUM)));
          c2 = c1\<lparr>m_blocks := blocks_modify 0
                  (havoc \<lparr>var_name = ''x'', get_type = INT_TYPE, get_bitwidth = 32\<rparr>)
                  (m_blocks c1)\<rparr>;
          c3 = c2\<lparr>m_blocks := blocks_modify 2
                  (havoc \<lparr>var_name = ''y'', get_type = INT_TYPE, get_bitwidth = 32\<rparr>)
                  (m_blocks c2)\<rparr>
      in c3\<lparr>m_blocks :=
             operator_rshift 2 3 (operator_rshift 0 2 (operator_rshift 0 1 (m_blocks c3)))\<rparr>)"

section \<open>Properties\<close>

subsection \<open>Integer casts\<close>

text \<open>
  C7. The type checker accepts an integer cast only if its width change is strictly
  monotone in the direction of the cast: the source is strictly wider than the
  destination for a truncation, the destination strictly wider than the source for a
  sign or zero extension. A cast whose widths do not change so is refused with a fatal
  error.
\<close>

theorem int_cast_width_strict:
  assumes "m_fields s = Int_cast_stmt op src dst"
  shows "(type_checker_visit s = Inr () \<longrightarrow>
            (op = CAST_TRUNC \<longrightarrow> get_bitwidth dst < get_bitwidth src) \<and>
            (op = CAST_SEXT \<or> op = CAST_ZEXT \<longrightarrow> get_bitwidth src < get_bitwidth dst)) \<and>
         (\<not> ((op = CAST_TRUNC \<longrightarrow> get_bitwidth dst < get_bitwidth src) \<and>
              (op = CAST_SEXT \<or> op = CAST_ZEXT \<longrightarrow> get_bitwidth src < get_bitwidth dst)) \<longrightarrow>
            (\<exists>e. type_checker_visit s = Inl e))"
proof -
  have accepted: "visit_int_cast op src dst = Inr () \<Longrightarrow>
      (op = CAST_TRUNC \<longrightarrow> get_bitwidth dst < get_bitwidth src) \<and>
      (op = CAST_SEXT \<or> op = CAST_ZEXT \<longrightarrow> get_bitwidth src < get_bitwidth dst)"
    by (cases op) (auto simp: visit_int_cast_def andthen_def split: sum.splits if_splits)
  have total: "(\<exists>e. visit_int_cast op src dst = Inl e) \<or> visit_int_cast op src dst = Inr ()"
    by (cases "visit_int_cast op src dst") auto
  from assms have "type_checker_visit s = visit_int_cast op src dst"
    by (simp add: type_checker_visit_def)
  with accepted total show ?thesis by metis
qed

theorem int_cast_width_strict_witness:
  "type_checker_visit
     (int_cast_stmt CAST_TRUNC
        \<lparr>var_name = ''x'', get_type = INT_TYPE, get_bitwidth = 32\<rparr>
        \<lparr>var_name = ''y'', get_type = INT_TYPE, get_bitwidth = 8\<rparr> debug_info_default) = Inr () \<and>
   type_checker_visit
     (int_cast_stmt CAST_ZEXT
        \<lparr>var_name = ''x'', get_type = INT_TYPE, get_bitwidth = 32\<rparr>
        \<lparr>var_name = ''y'', get_type = INT_TYPE, get_bitwidth = 32\<rparr> debug_info_default) =
     Inl (CRAB_ERROR ''(type checking) bitwidth of destination must be greater than source in '')"
  using int_cast_width_strict
    [of "int_cast_stmt CAST_TRUNC
          \<lparr>var_name = ''x'', get_type = INT_TYPE, get_bitwidth = 32\<rparr>
          \<lparr>var_name = ''y'', get_type = INT_TYPE, get_bitwidth = 8\<rparr> debug_info_default"
        CAST_TRUNC
        "\<lparr>var_name = ''x'', get_type = INT_TYPE, get_bitwidth = 32\<rparr>"
        "\<lparr>var_name = ''y'', get_type = INT_TYPE, get_bitwidth = 8\<rparr>"]
  by (simp add: int_cast_stmt_def type_checker_visit_def visit_int_cast_def andthen_def
      check_int_def check_int_or_bool_def check_bitwidth_if_bool_def check_bitwidth_if_int_def
      type_error_def)

subsection \<open>Boolean statements\<close>

text \<open>
  C8. The type checker is to validate every boolean operand of a boolean statement,
  the condition of a boolean select included. The visit of \<open>bool_select_t\<close> checks
  the left-hand side twice and never the condition: a select whose condition is a
  32-bit integer is accepted.
\<close>

theorem bool_select_cond_unchecked:
  "type_checker_visit
     (bool_select_stmt
        \<lparr>var_name = ''b1'', get_type = BOOL_TYPE, get_bitwidth = 1\<rparr>
        \<lparr>var_name = ''c'', get_type = INT_TYPE, get_bitwidth = 32\<rparr>
        \<lparr>var_name = ''b2'', get_type = BOOL_TYPE, get_bitwidth = 1\<rparr>
        \<lparr>var_name = ''b3'', get_type = BOOL_TYPE, get_bitwidth = 1\<rparr>) = Inr ()"
  by (simp add: bool_select_stmt_def type_checker_visit_def visit_bool_select_def andthen_def
      check_bool_def type_error_def)

subsection \<open>Hash and equality\<close>

text \<open>The signature hash never fails: every index the loops use is in range.\<close>

lemma hash_types_take:
  "n \<le> length xs \<Longrightarrow>
   hash_types hc (\<lambda>i. if i \<ge> length xs then Inl e else Inr (get_type (xs ! i))) n res =
     Inr (foldl hc res (map get_type (take n xs)))"
proof (induction n)
  case 0
  then show ?case by (simp add: hash_types_def)
next
  case (Suc n)
  then have "n < length xs" by simp
  with Suc show ?case
    by (simp add: hash_types_def bind_err_def take_Suc_conv_app_nth)
qed

lemma cfg_hasher_hash_total:
  "cfg_hasher_hash hs hc d =
     Inr (foldl hc (foldl hc (hs (m_func_name d))
            (map get_type (take (get_num_inputs d) (m_inputs d))))
            (map get_type (take (get_num_outputs d) (m_outputs d))))"
proof -
  have i: "get_num_inputs d \<le> length (m_inputs d)" by (simp add: get_num_inputs_def)
  have out: "get_num_outputs d \<le> length (m_outputs d)" by (simp add: get_num_outputs_def)
  have gi: "get_input_type d = (\<lambda>i. if i \<ge> length (m_inputs d)
       then Inl (CRAB_ERROR ''Out-of-bound access to function output parameter'')
       else Inr (get_type (m_inputs d ! i)))"
    by (rule ext) (simp add: get_input_type_def)
  have go: "get_output_type d = (\<lambda>i. if i \<ge> length (m_outputs d)
       then Inl (CRAB_ERROR ''Out-of-bound access to function output parameter'')
       else Inr (get_type (m_outputs d ! i)))"
    by (rule ext) (simp add: get_output_type_def)
  show ?thesis
    unfolding cfg_hasher_hash_def gi go
    by (simp add: hash_types_take [OF i] hash_types_take [OF out] bind_err_def)
qed

text \<open>
  C9. For two CFGs that both carry a function declaration, \<open>operator==\<close> returns
  whether the hashes of the two declarations are equal. The hash of a declaration is
  the hash of the function's name combined with the types of the inputs and then of
  the outputs, in order (for fewer than \<open>2^32\<close> parameters, the range of the 32-bit
  counters); the blocks and the other fields of the CFGs play no part.
\<close>

theorem cfg_equal_signature_hash:
  assumes "m_func_decl a = Some da" and "m_func_decl b = Some db"
  shows "\<exists>ha hb.
           cfg_hasher_hash hs hc da = Inr ha \<and> cfg_hasher_hash hs hc db = Inr hb \<and>
           cfg_equal hs hc a b = Inr (ha = hb) \<and>
           (length (m_inputs da) < 2 ^ 32 \<and> length (m_outputs da) < 2 ^ 32 \<longrightarrow>
              ha = foldl hc (foldl hc (hs (m_func_name da)) (map get_type (m_inputs da)))
                     (map get_type (m_outputs da))) \<and>
           (length (m_inputs db) < 2 ^ 32 \<and> length (m_outputs db) < 2 ^ 32 \<longrightarrow>
              hb = foldl hc (foldl hc (hs (m_func_name db)) (map get_type (m_inputs db)))
                     (map get_type (m_outputs db))) \<and>
           (\<forall>a' b'. m_func_decl a' = Some da \<and> m_func_decl b' = Some db \<longrightarrow>
              cfg_equal hs hc (a' :: ('l, 'v) cfg) b' = cfg_equal hs hc a b)"
  using assms
  by (simp add: cfg_equal_def hash_value_def bind_err_def cfg_hasher_hash_total
      get_num_inputs_def get_num_outputs_def)

theorem cfg_equal_signature_hash_witness:
  "cfg_equal (\<lambda>s. of_nat (length s)) (\<lambda>r t. r * 31 + of_nat (type_value t))
     (Cfg_entry_exit_decl (0::nat) 1
        \<lparr>m_func_name = ''foo'',
         m_inputs = [\<lparr>var_name = ''x'', get_type = INT_TYPE, get_bitwidth = 32\<rparr>],
         m_outputs = [\<lparr>var_name = ''z'', get_type = INT_TYPE, get_bitwidth = 32\<rparr>]\<rparr> NUM)
     (cfg_insert 7 (Cfg_entry_exit_decl 5 6
        \<lparr>m_func_name = ''bar'',
         m_inputs = [\<lparr>var_name = ''u'', get_type = INT_TYPE, get_bitwidth = 8\<rparr>],
         m_outputs = [\<lparr>var_name = ''w'', get_type = INT_TYPE, get_bitwidth = 64\<rparr>]\<rparr> ARR)) =
   Inr True"
proof -
  let ?da = "\<lparr>m_func_name = ''foo'',
         m_inputs = [\<lparr>var_name = ''x'', get_type = INT_TYPE, get_bitwidth = 32\<rparr>],
         m_outputs = [\<lparr>var_name = ''z'', get_type = INT_TYPE, get_bitwidth = 32\<rparr>]\<rparr>"
  let ?db = "\<lparr>m_func_name = ''bar'',
         m_inputs = [\<lparr>var_name = ''u'', get_type = INT_TYPE, get_bitwidth = 8\<rparr>],
         m_outputs = [\<lparr>var_name = ''w'', get_type = INT_TYPE, get_bitwidth = 64\<rparr>]\<rparr>"
  let ?a = "Cfg_entry_exit_decl (0::nat) 1 ?da NUM"
  let ?b = "cfg_insert 7 (Cfg_entry_exit_decl (5::nat) 6 ?db ARR)"
  let ?hs = "\<lambda>s :: string. (of_nat (length s) :: 64 word)"
  let ?hc = "\<lambda>(r :: 64 word) t. r * 31 + of_nat (type_value t)"
  have a: "m_func_decl ?a = Some ?da"
    by (simp add: Cfg_entry_exit_decl_def)
  have b: "m_func_decl ?b = Some ?db"
    by (simp add: Cfg_entry_exit_decl_def cfg_insert_def umap_insert_def)
  have la: "length (m_inputs ?da) < 2 ^ 32 \<and> length (m_outputs ?da) < 2 ^ 32" by simp
  have lb: "length (m_inputs ?db) < 2 ^ 32 \<and> length (m_outputs ?db) < 2 ^ 32" by simp
  from cfg_equal_signature_hash [OF a b, of ?hs ?hc] la lb
  obtain ha hb where eq: "cfg_equal ?hs ?hc ?a ?b = Inr (ha = hb)"
    and ha: "ha = foldl ?hc (foldl ?hc (?hs (m_func_name ?da)) (map get_type (m_inputs ?da)))
                     (map get_type (m_outputs ?da))"
    and hb: "hb = foldl ?hc (foldl ?hc (?hs (m_func_name ?db)) (map get_type (m_inputs ?db)))
                     (map get_type (m_outputs ?db))"
    by blast
  from ha hb have "ha = hb" by simp
  with eq show ?thesis by simp
qed

text \<open>
  C10. For a CFG without a function declaration, \<open>hash_value\<close> raises a fatal error,
  and so does \<open>operator==\<close> with that CFG on either side: no value is returned.
\<close>

theorem hash_without_func_decl:
  assumes "m_func_decl a = None"
  shows "hash_value hs hc a =
           Inl (CRAB_ERROR ''cannot hash a cfg because function declaration is missing'') \<and>
         cfg_equal hs hc a b =
           Inl (CRAB_ERROR ''cannot hash a cfg because function declaration is missing'') \<and>
         cfg_equal hs hc b a =
           Inl (CRAB_ERROR ''cannot hash a cfg because function declaration is missing'')"
proof -
  from assms have ha: "hash_value hs hc a =
      Inl (CRAB_ERROR ''cannot hash a cfg because function declaration is missing'')"
    by (simp add: hash_value_def)
  have hb: "cfg_equal hs hc b a =
      Inl (CRAB_ERROR ''cannot hash a cfg because function declaration is missing'')"
  proof (cases "m_func_decl b")
    case None
    then show ?thesis by (simp add: cfg_equal_def hash_value_def bind_err_def)
  next
    case (Some d)
    then show ?thesis
      by (simp add: cfg_equal_def hash_value_def bind_err_def cfg_hasher_hash_total assms)
  qed
  from ha hb show ?thesis by (simp add: cfg_equal_def bind_err_def)
qed

theorem hash_without_func_decl_witness:
  "m_func_decl (Cfg_entry (0::nat) NUM :: (nat, string) cfg) = None \<and>
   hash_value (\<lambda>s. of_nat (length s)) (\<lambda>r t. r * 31 + of_nat (type_value t))
       (Cfg_entry (0::nat) NUM :: (nat, string) cfg) =
     Inl (CRAB_ERROR ''cannot hash a cfg because function declaration is missing'') \<and>
   cfg_equal (\<lambda>s. of_nat (length s)) (\<lambda>r t. r * 31 + of_nat (type_value t))
       (Cfg_entry (0::nat) NUM :: (nat, string) cfg)
       (Cfg_entry_exit_decl 0 1 \<lparr>m_func_name = ''foo'', m_inputs = [], m_outputs = []\<rparr> NUM) =
     Inl (CRAB_ERROR ''cannot hash a cfg because function declaration is missing'') \<and>
   cfg_equal (\<lambda>s. of_nat (length s)) (\<lambda>r t. r * 31 + of_nat (type_value t))
       (Cfg_entry_exit_decl 0 1 \<lparr>m_func_name = ''foo'', m_inputs = [], m_outputs = []\<rparr> NUM)
       (Cfg_entry (0::nat) NUM :: (nat, string) cfg) =
     Inl (CRAB_ERROR ''cannot hash a cfg because function declaration is missing'')"
proof -
  have h: "m_func_decl (Cfg_entry (0::nat) NUM :: (nat, string) cfg) = None"
    by (simp add: Cfg_entry_def)
  show ?thesis
    using h hash_without_func_decl [OF h,
        of "\<lambda>s. of_nat (length s)" "\<lambda>r t. r * 31 + of_nat (type_value t)"
           "Cfg_entry_exit_decl 0 1 \<lparr>m_func_name = ''foo'', m_inputs = [], m_outputs = []\<rparr> NUM"]
    by simp
qed

subsection \<open>Precision gating of the builders\<close>

text \<open>A block that \<open>Cfg::insert\<close> creates has the precision of the CFG.\<close>

lemma cfg_insert_track_prec:
  assumes "map_of (m_blocks c) k = None"
  shows "map_of (m_blocks (cfg_insert k c)) k = Some (basic_block_create k (m_track_prec_cfg c))"
  using assms by (simp add: cfg_insert_def umap_insert_def map_add_def)

text \<open>
  C6. A block carries the tracking precision of its CFG (\<open>Cfg::insert\<close> creates it
  with \<open>m_track_prec\<close>). On a block whose precision is below \<open>PTR\<close> every pointer
  builder, and on a block whose precision is below \<open>ARR\<close> every array builder,
  returns the block as it was: no statement is added, the live set and every other
  field are unchanged, and no error is raised.
\<close>

theorem precision_gate_noop:
  "(prec_value (m_track_prec b) < prec_value PTR \<longrightarrow>
      ptr_store lhs rhs b = Inr b \<and> ptr_load lhs rhs b = Inr b \<and>
      ptr_assign lhs rhs offset b = Inr b \<and> ptr_new_object lhs address b = Inr b \<and>
      ptr_new_func lhs func b = Inr b \<and> ptr_null lhs b = Inr b \<and>
      ptr_assume cst b = Inr b \<and> ptr_assertion cst b = Inr b \<and>
      ptr_assertion_di cst di b = Inr b) \<and>
   (prec_value (m_track_prec b) < prec_value ARR \<longrightarrow>
      array_assume a elem_size lb_idx ub_idx v b = Inr b \<and>
      array_store a idx v elem_size is_sing b = Inr b \<and>
      array_load lhs a idx elem_size b = Inr b \<and>
      array_assign lhs rhs b = Inr b)"
proof -
  have arr: "prec_value (m_track_prec b) < prec_value ARR \<Longrightarrow> m_track_prec b \<noteq> ARR"
    by auto
  show ?thesis
    by (simp add: arr ptr_store_def ptr_load_def ptr_assign_def ptr_new_object_def
        ptr_new_func_def ptr_null_def ptr_assume_def ptr_assertion_def ptr_assertion_di_def
        array_assume_def array_store_def array_load_def array_assign_def)
qed

theorem precision_gate_noop_witness:
  "prec_value (m_track_prec (basic_block_create (0::nat) NUM :: (nat, string) basic_block))
     < prec_value PTR \<and>
   ptr_load \<lparr>var_name = ''p'', get_type = PTR_TYPE, get_bitwidth = 32\<rparr>
       \<lparr>var_name = ''q'', get_type = PTR_TYPE, get_bitwidth = 32\<rparr>
       (basic_block_create (0::nat) NUM) = Inr (basic_block_create 0 NUM) \<and>
   prec_value (m_track_prec (basic_block_create (0::nat) PTR :: (nat, string) basic_block))
     < prec_value ARR \<and>
   array_store \<lparr>var_name = ''a'', get_type = INT_TYPE, get_bitwidth = 32\<rparr>
       (Linear_expression [(2, \<lparr>var_name = ''i'', get_type = INT_TYPE, get_bitwidth = 32\<rparr>)] 1)
       (Linear_expression [(2, \<lparr>var_name = ''i'', get_type = INT_TYPE, get_bitwidth = 32\<rparr>)] 1)
       4 False
       (basic_block_create (0::nat) PTR) = Inr (basic_block_create 0 PTR)"
proof -
  have h1: "prec_value (m_track_prec (basic_block_create (0::nat) NUM :: (nat, string) basic_block))
     < prec_value PTR" by (simp add: basic_block_create_def)
  have h2: "prec_value (m_track_prec (basic_block_create (0::nat) PTR :: (nat, string) basic_block))
     < prec_value ARR" by (simp add: basic_block_create_def)
  have p: "ptr_load \<lparr>var_name = ''p'', get_type = PTR_TYPE, get_bitwidth = 32\<rparr>
       \<lparr>var_name = ''q'', get_type = PTR_TYPE, get_bitwidth = 32\<rparr>
       (basic_block_create (0::nat) NUM :: (nat, string) basic_block) =
         Inr (basic_block_create 0 NUM)"
    using h1 precision_gate_noop
      [where b = "basic_block_create (0::nat) NUM :: (nat, string) basic_block"
        and lhs = "\<lparr>var_name = ''p'', get_type = PTR_TYPE, get_bitwidth = 32\<rparr>"
        and rhs = "\<lparr>var_name = ''q'', get_type = PTR_TYPE, get_bitwidth = 32\<rparr>"]
    by simp
  have a: "array_store \<lparr>var_name = ''a'', get_type = INT_TYPE, get_bitwidth = 32\<rparr>
       (Linear_expression [(2, \<lparr>var_name = ''i'', get_type = INT_TYPE, get_bitwidth = 32\<rparr>)] 1)
       (Linear_expression [(2, \<lparr>var_name = ''i'', get_type = INT_TYPE, get_bitwidth = 32\<rparr>)] 1)
       4 False
       (basic_block_create (0::nat) PTR :: (nat, string) basic_block) =
         Inr (basic_block_create 0 PTR)"
    using h2 precision_gate_noop
      [where b = "basic_block_create (0::nat) PTR :: (nat, string) basic_block"
        and a = "\<lparr>var_name = ''a'', get_type = INT_TYPE, get_bitwidth = 32\<rparr>"
        and idx = "Linear_expression
          [(2, \<lparr>var_name = ''i'', get_type = INT_TYPE, get_bitwidth = 32\<rparr>)] 1"
        and v = "Linear_expression
          [(2, \<lparr>var_name = ''i'', get_type = INT_TYPE, get_bitwidth = 32\<rparr>)] 1"
        and elem_size = 4 and is_sing = False]
    by simp
  from h1 h2 p a show ?thesis by simp
qed

subsection \<open>Live sets of statements\<close>

text \<open>
  C2. Every assignment target of a statement is to be in the defs of its live set and
  every variable read in the uses. The constructor of \<open>ptr_load_stmt\<close> (\<open>p = *q\<close>)
  adds the target \<open>p\<close> to the uses and leaves the defs empty, and the constructor of
  \<open>ptr_assign_stmt\<close> (\<open>p = q + n\<close>) leaves the variables of the offset out of the
  uses.
\<close>

theorem ptr_load_lhs_not_def:
  "get_live (ptr_load_stmt \<lparr>var_name = ''p'', get_type = PTR_TYPE, get_bitwidth = 32\<rparr>
       \<lparr>var_name = ''q'', get_type = PTR_TYPE, get_bitwidth = 32\<rparr> debug_info_default) =
     \<lparr>m_uses = [\<lparr>var_name = ''p'', get_type = PTR_TYPE, get_bitwidth = 32\<rparr>,
               \<lparr>var_name = ''q'', get_type = PTR_TYPE, get_bitwidth = 32\<rparr>],
      m_defs = []\<rparr> \<and>
   get_live (ptr_assign_stmt \<lparr>var_name = ''p'', get_type = PTR_TYPE, get_bitwidth = 32\<rparr>
       \<lparr>var_name = ''q'', get_type = PTR_TYPE, get_bitwidth = 32\<rparr>
       (exp_of_var \<lparr>var_name = ''n'', get_type = INT_TYPE, get_bitwidth = 32\<rparr>)) =
     \<lparr>m_uses = [\<lparr>var_name = ''q'', get_type = PTR_TYPE, get_bitwidth = 32\<rparr>],
      m_defs = [\<lparr>var_name = ''p'', get_type = PTR_TYPE, get_bitwidth = 32\<rparr>]\<rparr>"
  by (simp add: get_live_def ptr_load_stmt_def ptr_assign_stmt_def add_use_def add_def_def
      live_add_def Live_empty_def var_eq_def)

subsection \<open>The reversed view\<close>

text \<open>
  C5, as the claim states it: constructing \<open>cfg_rev\<close> from a CFG without an exit
  fails. The constructor only fills the table of reversed blocks: on a CFG without
  an exit it returns the view.
\<close>

theorem cfg_rev_without_exit_counterexample:
  "\<not> has_exit (Cfg_entry (0::nat) NUM :: (nat, string) cfg) \<and>
   cfg_rev (Cfg_entry (0::nat) NUM :: (nat, string) cfg) =
     Inr \<lparr>rev_cfg = Cfg_entry 0 NUM, rev_bbs = [(0, Basic_block_rev 0)]\<rparr>"
  by (simp add: has_exit_def Cfg_entry_def cfg_rev_def umap_insert_def basic_block_create_def)

text \<open>
  C5, amended. Constructing the reversed view never fails; it is \<open>entry ()\<close> of the
  view that requires the exit: it raises the fatal error \<open>Entry not found!\<close> when the
  original CFG has no exit and returns the original's exit otherwise, and the view's
  exit is the original's entry.
\<close>

theorem cfg_rev_entry_needs_exit:
  "cfg_rev c = Inr \<lparr>rev_cfg = c,
      rev_bbs = fold (\<lambda>kb acc. umap_insert (m_bb_id (snd kb)) (Basic_block_rev (fst kb)) acc)
                  (m_blocks c) []\<rparr> \<and>
   (\<forall>r. cfg_rev c = Inr r \<longrightarrow>
      (\<not> has_exit c \<longrightarrow> cfg_rev_entry r = Inl (CRAB_ERROR ''Entry not found!'')) \<and>
      (\<forall>e. m_exit c = Some e \<longrightarrow> cfg_rev_entry r = Inr e) \<and>
      cfg_rev_exit r = m_entry c)"
  by (auto simp: cfg_rev_def cfg_rev_entry_def cfg_rev_exit_def has_exit_def cfg_exit_def)

theorem cfg_rev_entry_needs_exit_witness:
  "(\<exists>r. cfg_rev (Cfg_entry (0::nat) NUM :: (nat, string) cfg) = Inr r \<and>
        cfg_rev_entry r = Inl (CRAB_ERROR ''Entry not found!'')) \<and>
   (\<exists>r. cfg_rev (Cfg_entry_exit (0::nat) 1 NUM :: (nat, string) cfg) = Inr r \<and>
        cfg_rev_entry r = Inr 1)"
proof -
  have n: "\<not> has_exit (Cfg_entry (0::nat) NUM :: (nat, string) cfg)"
    by (simp add: has_exit_def Cfg_entry_def)
  have e: "m_exit (Cfg_entry_exit (0::nat) 1 NUM :: (nat, string) cfg) = Some 1"
    by (simp add: Cfg_entry_exit_def)
  from n cfg_rev_entry_needs_exit [of "Cfg_entry (0::nat) NUM :: (nat, string) cfg"]
  have "\<exists>r. cfg_rev (Cfg_entry (0::nat) NUM :: (nat, string) cfg) = Inr r \<and>
        cfg_rev_entry r = Inl (CRAB_ERROR ''Entry not found!'')"
    by blast
  moreover from e cfg_rev_entry_needs_exit [of "Cfg_entry_exit (0::nat) 1 NUM :: (nat, string) cfg"]
  have "\<exists>r. cfg_rev (Cfg_entry_exit (0::nat) 1 NUM :: (nat, string) cfg) = Inr r \<and>
        cfg_rev_entry r = Inr 1"
    by blast
  ultimately show ?thesis by simp
qed

subsection \<open>Adjacency symmetry\<close>

lemma set_insert_adjacent: "set (insert_adjacent c e) = insert e (set c)"
  by (auto simp: insert_adjacent_def)

lemma set_remove_adjacent: "set (remove_adjacent c e) = set c - {e}"
  by (auto simp: remove_adjacent_def)

lemma keys_blocks_modify: "map fst (blocks_modify k f bs) = map fst bs"
  by (induction bs) (auto simp: blocks_modify_def)

lemma set_blocks_modify:
  "set (blocks_modify k f bs) = (\<lambda>p. if fst p = k then (fst p, f (snd p)) else p) ` set bs"
  by (simp add: blocks_modify_def)

lemma blocks_wf_modify:
  assumes "blocks_wf bs" and "\<And>t. m_bb_id (f t) = m_bb_id t"
  shows "blocks_wf (blocks_modify k f bs)"
  using assms by (auto simp: blocks_wf_def keys_blocks_modify set_blocks_modify)

lemma blocks_wf_lookup:
  assumes "blocks_wf bs" and "map_of bs k = Some x"
  shows "m_bb_id x = k" and "(k, x) \<in> set bs"
  using assms by (auto simp: blocks_wf_def dest: map_of_SomeD)

lemma blocks_wf_rshift: "blocks_wf bs \<Longrightarrow> blocks_wf (operator_rshift a b bs)"
  by (auto simp: operator_rshift_def blocks_wf_modify split: option.splits)

lemma blocks_wf_minus: "blocks_wf bs \<Longrightarrow> blocks_wf (operator_minus_assign a b bs)"
  by (auto simp: operator_minus_assign_def blocks_wf_modify split: option.splits)

lemma symmetric_rshift:
  assumes wf: "blocks_wf bs" and sym: "adjacency_symmetric bs"
  shows "adjacency_symmetric (operator_rshift a b bs)"
proof (cases "map_of bs a")
  case None
  with sym show ?thesis by (simp add: operator_rshift_def)
next
  case (Some x)
  note x = this
  show ?thesis
  proof (cases "map_of bs b")
    case None
    with sym x show ?thesis by (simp add: operator_rshift_def)
  next
    case (Some y)
    from wf x have xa: "m_bb_id x = a" by (rule blocks_wf_lookup)
    from wf Some have yb: "m_bb_id y = b" by (rule blocks_wf_lookup)
    have ids: "\<And>kb. kb \<in> set bs \<Longrightarrow> m_bb_id (snd kb) = fst kb"
      using wf by (auto simp: blocks_wf_def)
    have symD1: "\<And>k1 x1 k2 x2. (k1, x1) \<in> set bs \<Longrightarrow> (k2, x2) \<in> set bs \<Longrightarrow>
        k2 \<in> set (m_next x1) \<Longrightarrow> k1 \<in> set (m_prev x2)"
      using sym ids by (fastforce simp: adjacency_symmetric_def)
    have symD2: "\<And>k1 x1 k2 x2. (k1, x1) \<in> set bs \<Longrightarrow> (k2, x2) \<in> set bs \<Longrightarrow>
        k1 \<in> set (m_prev x2) \<Longrightarrow> k2 \<in> set (m_next x1)"
      using sym ids by (fastforce simp: adjacency_symmetric_def)
    have eq: "operator_rshift a b bs =
        blocks_modify b (\<lambda>t. t\<lparr>m_prev := insert_adjacent (m_prev t) a\<rparr>)
          (blocks_modify a (\<lambda>t. t\<lparr>m_next := insert_adjacent (m_next t) b\<rparr>) bs)"
      using x Some xa yb by (simp add: operator_rshift_def)
    show ?thesis
      unfolding eq adjacency_symmetric_def set_blocks_modify
      using ids by (auto simp: set_insert_adjacent dest: symD1 symD2)
  qed
qed

lemma symmetric_minus:
  assumes wf: "blocks_wf bs" and sym: "adjacency_symmetric bs"
  shows "adjacency_symmetric (operator_minus_assign a b bs)"
proof (cases "map_of bs a")
  case None
  with sym show ?thesis by (simp add: operator_minus_assign_def)
next
  case (Some x)
  note x = this
  show ?thesis
  proof (cases "map_of bs b")
    case None
    with sym x show ?thesis by (simp add: operator_minus_assign_def)
  next
    case (Some y)
    from wf x have xa: "m_bb_id x = a" by (rule blocks_wf_lookup)
    from wf Some have yb: "m_bb_id y = b" by (rule blocks_wf_lookup)
    have ids: "\<And>kb. kb \<in> set bs \<Longrightarrow> m_bb_id (snd kb) = fst kb"
      using wf by (auto simp: blocks_wf_def)
    have symD1: "\<And>k1 x1 k2 x2. (k1, x1) \<in> set bs \<Longrightarrow> (k2, x2) \<in> set bs \<Longrightarrow>
        k2 \<in> set (m_next x1) \<Longrightarrow> k1 \<in> set (m_prev x2)"
      using sym ids by (fastforce simp: adjacency_symmetric_def)
    have symD2: "\<And>k1 x1 k2 x2. (k1, x1) \<in> set bs \<Longrightarrow> (k2, x2) \<in> set bs \<Longrightarrow>
        k1 \<in> set (m_prev x2) \<Longrightarrow> k2 \<in> set (m_next x1)"
      using sym ids by (fastforce simp: adjacency_symmetric_def)
    have eq: "operator_minus_assign a b bs =
        blocks_modify b (\<lambda>t. t\<lparr>m_prev := remove_adjacent (m_prev t) a\<rparr>)
          (blocks_modify a (\<lambda>t. t\<lparr>m_next := remove_adjacent (m_next t) b\<rparr>) bs)"
      using x Some xa yb by (simp add: operator_minus_assign_def)
    show ?thesis
      unfolding eq adjacency_symmetric_def set_blocks_modify
      using ids by (auto simp: set_remove_adjacent dest: symD1 symD2)
  qed
qed

lemma fold_minus_invariant:
  "blocks_wf bs \<Longrightarrow> adjacency_symmetric bs \<Longrightarrow>
   blocks_wf (fold (\<lambda>p. operator_minus_assign (fst p) (snd p)) dead bs) \<and>
   adjacency_symmetric (fold (\<lambda>p. operator_minus_assign (fst p) (snd p)) dead bs)"
  by (induction dead arbitrary: bs) (simp_all add: blocks_wf_minus symmetric_minus)

lemma erase_invariant:
  "blocks_wf bs \<Longrightarrow> adjacency_symmetric bs \<Longrightarrow>
   blocks_wf (umap_erase k bs) \<and> adjacency_symmetric (umap_erase k bs)"
  by (auto simp: blocks_wf_def adjacency_symmetric_def umap_erase_def distinct_map_filter)

lemma remove_invariant:
  assumes "blocks_wf (m_blocks c)" and "adjacency_symmetric (m_blocks c)"
    and "remove k c = Inr c'"
  shows "blocks_wf (m_blocks c') \<and> adjacency_symmetric (m_blocks c')"
proof -
  from assms(3) obtain dp dn where
    "c' = c\<lparr>m_blocks := umap_erase k
        (fold (\<lambda>p. operator_minus_assign (fst p) (snd p)) (dp @ dn) (m_blocks c))\<rparr>"
    unfolding remove_def bind_err_def by (auto split: sum.splits simp del: fold_append)
  with fold_minus_invariant [OF assms(1,2), of "dp @ dn"] show ?thesis
    by (simp add: erase_invariant del: fold_append)
qed

lemma two_block_cfg_value:
  "two_block_cfg =
     \<lparr>m_entry = 0, m_exit = None,
      m_blocks =
        [(0, \<lparr>m_bb_id = 0,
               m_stmts = [havoc_stmt \<lparr>var_name = ''x'', get_type = INT_TYPE, get_bitwidth = 32\<rparr>],
               m_prev = [], m_next = [1], m_track_prec = NUM, m_insert_point_at_front = False,
               m_live_bb = [\<lparr>var_name = ''x'', get_type = INT_TYPE, get_bitwidth = 32\<rparr>]\<rparr>),
         (1, \<lparr>m_bb_id = 1, m_stmts = [], m_prev = [0], m_next = [], m_track_prec = NUM,
               m_insert_point_at_front = False, m_live_bb = []\<rparr>)],
      m_track_prec_cfg = NUM, m_func_decl = None\<rparr>"
  by (simp add: two_block_cfg_def Let_def cfg_insert_def Cfg_entry_def umap_insert_def
      basic_block_create_def blocks_modify_def havoc_def bb_insert_def havoc_stmt_def
      get_live_def add_def_def Live_empty_def live_add_def operator_rshift_def
      insert_adjacent_def)

text \<open>A fresh CFG satisfies the invariants, and \<open>Cfg::insert\<close> keeps the table well-formed.\<close>

lemma fresh_cfg_invariant:
  "blocks_wf (m_blocks (Cfg_entry entry track_prec)) \<and>
   adjacency_symmetric (m_blocks (Cfg_entry entry track_prec))"
  by (simp add: Cfg_entry_def umap_insert_def blocks_wf_def adjacency_symmetric_def
      basic_block_create_def)

lemma blocks_wf_cfg_insert:
  assumes "blocks_wf (m_blocks c)"
  shows "blocks_wf (m_blocks (cfg_insert k c))"
proof (cases "map_of (m_blocks c) k")
  case None
  then have "k \<notin> fst ` set (m_blocks c)" by (simp add: map_of_eq_None_iff)
  with assms None show ?thesis
    by (auto simp: cfg_insert_def umap_insert_def blocks_wf_def basic_block_create_def)
next
  case (Some b)
  with assms show ?thesis by (simp add: cfg_insert_def)
qed

text \<open>Edges that lead to blocks of the table, and the removal of a block.\<close>

lemma keys_rshift: "fst ` set (operator_rshift a b bs) = fst ` set bs"
proof -
  have "map fst (operator_rshift a b bs) = map fst bs"
    by (simp add: operator_rshift_def keys_blocks_modify split: option.splits)
  then have "set (map fst (operator_rshift a b bs)) = set (map fst bs)" by simp
  then show ?thesis by simp
qed

lemma keys_minus: "fst ` set (operator_minus_assign a b bs) = fst ` set bs"
proof -
  have "map fst (operator_minus_assign a b bs) = map fst bs"
    by (simp add: operator_minus_assign_def keys_blocks_modify split: option.splits)
  then have "set (map fst (operator_minus_assign a b bs)) = set (map fst bs)" by simp
  then show ?thesis by simp
qed

lemma keys_fold_minus:
  "fst ` set (fold (\<lambda>p. operator_minus_assign (fst p) (snd p)) dead bs) = fst ` set bs"
  by (induction dead arbitrary: bs) (simp_all add: keys_minus)

lemma closed_rshift:
  assumes wf: "blocks_wf bs" and cl: "adjacency_closed bs"
  shows "adjacency_closed (operator_rshift a b bs)"
proof (cases "map_of bs a")
  case None
  with cl show ?thesis by (simp add: operator_rshift_def)
next
  case (Some x)
  note x = this
  show ?thesis
  proof (cases "map_of bs b")
    case None
    with cl x show ?thesis by (simp add: operator_rshift_def)
  next
    case (Some y)
    from wf x have xa: "m_bb_id x = a" and ain: "(a, x) \<in> set bs"
      by (rule blocks_wf_lookup)+
    from wf Some have yb: "m_bb_id y = b" and bin: "(b, y) \<in> set bs"
      by (rule blocks_wf_lookup)+
    from ain have ak: "a \<in> fst ` set bs" by force
    from bin have bk: "b \<in> fst ` set bs" by force
    have eq: "operator_rshift a b bs =
        blocks_modify b (\<lambda>t. t\<lparr>m_prev := insert_adjacent (m_prev t) a\<rparr>)
          (blocks_modify a (\<lambda>t. t\<lparr>m_next := insert_adjacent (m_next t) b\<rparr>) bs)"
      using x Some xa yb by (simp add: operator_rshift_def)
    have keys: "fst ` set (operator_rshift a b bs) = fst ` set bs" by (rule keys_rshift)
    have clN: "\<And>k t x. (k, t) \<in> set bs \<Longrightarrow> x \<in> set (m_next t) \<Longrightarrow> x \<in> fst ` set bs"
      using cl by (fastforce simp: adjacency_closed_def)
    have clP: "\<And>k t x. (k, t) \<in> set bs \<Longrightarrow> x \<in> set (m_prev t) \<Longrightarrow> x \<in> fst ` set bs"
      using cl by (fastforce simp: adjacency_closed_def)
    show ?thesis
      unfolding adjacency_closed_def keys
      unfolding eq set_blocks_modify
      by (auto simp: set_insert_adjacent intro: clN clP ak bk)
  qed
qed

lemma minus_shrinks:
  assumes "(k, t') \<in> set (operator_minus_assign p q bs)"
  shows "\<exists>t. (k, t) \<in> set bs \<and> set (m_prev t') \<subseteq> set (m_prev t) \<and>
             set (m_next t') \<subseteq> set (m_next t)"
proof (cases "map_of bs p")
  case None
  with assms show ?thesis by (auto simp: operator_minus_assign_def)
next
  case (Some x)
  note x = this
  show ?thesis
  proof (cases "map_of bs q")
    case None
    with assms x show ?thesis by (auto simp: operator_minus_assign_def)
  next
    case (Some y)
    with assms x show ?thesis
      by (auto simp: operator_minus_assign_def set_blocks_modify set_remove_adjacent
          split: if_splits)
  qed
qed

lemma fold_minus_shrinks:
  "(k, t') \<in> set (fold (\<lambda>p. operator_minus_assign (fst p) (snd p)) dead bs) \<Longrightarrow>
   \<exists>t. (k, t) \<in> set bs \<and> set (m_prev t') \<subseteq> set (m_prev t) \<and>
       set (m_next t') \<subseteq> set (m_next t)"
proof (induction dead arbitrary: bs t')
  case Nil
  then show ?case by auto
next
  case (Cons d ds)
  from Cons.prems have
    "(k, t') \<in> set (fold (\<lambda>p. operator_minus_assign (fst p) (snd p)) ds
        (operator_minus_assign (fst d) (snd d) bs))" by simp
  from Cons.IH [OF this] obtain t1 where
    t1: "(k, t1) \<in> set (operator_minus_assign (fst d) (snd d) bs)"
    and s1: "set (m_prev t') \<subseteq> set (m_prev t1)" "set (m_next t') \<subseteq> set (m_next t1)"
    by blast
  from minus_shrinks [OF t1] obtain t where
    "(k, t) \<in> set bs" "set (m_prev t1) \<subseteq> set (m_prev t)" "set (m_next t1) \<subseteq> set (m_next t)"
    by blast
  with s1 show ?case by blast
qed

lemma minus_removes:
  assumes wf: "blocks_wf bs" and p: "p \<in> fst ` set bs" and q: "q \<in> fst ` set bs"
  shows "(q, t') \<in> set (operator_minus_assign p q bs) \<Longrightarrow> p \<notin> set (m_prev t')"
    and "(p, t') \<in> set (operator_minus_assign p q bs) \<Longrightarrow> q \<notin> set (m_next t')"
proof -
  from wf have dist: "distinct (map fst bs)" by (simp add: blocks_wf_def)
  from p dist obtain x where x: "map_of bs p = Some x"
    by (metis domD dom_map_of_conv_image_fst)
  from q dist obtain y where y: "map_of bs q = Some y"
    by (metis domD dom_map_of_conv_image_fst)
  from wf x have xa: "m_bb_id x = p" by (rule blocks_wf_lookup)
  from wf y have yb: "m_bb_id y = q" by (rule blocks_wf_lookup)
  have eq: "operator_minus_assign p q bs =
      blocks_modify q (\<lambda>t. t\<lparr>m_prev := remove_adjacent (m_prev t) p\<rparr>)
        (blocks_modify p (\<lambda>t. t\<lparr>m_next := remove_adjacent (m_next t) q\<rparr>) bs)"
    using x y xa yb by (simp add: operator_minus_assign_def)
  show "(q, t') \<in> set (operator_minus_assign p q bs) \<Longrightarrow> p \<notin> set (m_prev t')"
    unfolding eq set_blocks_modify by (auto simp: set_remove_adjacent split: if_splits)
  show "(p, t') \<in> set (operator_minus_assign p q bs) \<Longrightarrow> q \<notin> set (m_next t')"
    unfolding eq set_blocks_modify by (auto simp: set_remove_adjacent split: if_splits)
qed

lemma fold_minus_removes:
  "blocks_wf bs \<Longrightarrow>
   \<forall>d \<in> set dead. fst d \<in> fst ` set bs \<and> snd d \<in> fst ` set bs \<Longrightarrow>
   d \<in> set dead \<Longrightarrow>
   (\<forall>t'. (snd d, t') \<in> set (fold (\<lambda>p. operator_minus_assign (fst p) (snd p)) dead bs) \<longrightarrow>
          fst d \<notin> set (m_prev t')) \<and>
   (\<forall>t'. (fst d, t') \<in> set (fold (\<lambda>p. operator_minus_assign (fst p) (snd p)) dead bs) \<longrightarrow>
          snd d \<notin> set (m_next t'))"
proof (induction dead arbitrary: bs)
  case Nil
  then show ?case by simp
next
  case (Cons d0 ds)
  let ?bs1 = "operator_minus_assign (fst d0) (snd d0) bs"
  let ?res = "fold (\<lambda>p. operator_minus_assign (fst p) (snd p)) ds ?bs1"
  have wf1: "blocks_wf ?bs1" using Cons.prems(1) by (simp add: blocks_wf_minus)
  have keys1: "\<forall>d \<in> set ds. fst d \<in> fst ` set ?bs1 \<and> snd d \<in> fst ` set ?bs1"
    using Cons.prems(2) by (simp add: keys_minus)
  have d0k: "fst d0 \<in> fst ` set bs" "snd d0 \<in> fst ` set bs" using Cons.prems(2) by simp_all
  show ?case
  proof (cases "d \<in> set ds")
    case True
    from Cons.IH [OF wf1 keys1 True] show ?thesis by simp
  next
    case False
    with Cons.prems(3) have d: "d = d0" by simp
    have "fst d \<notin> set (m_prev t')" if "(snd d, t') \<in> set ?res" for t'
    proof -
      from fold_minus_shrinks [OF that] obtain t1 where
        t1: "(snd d, t1) \<in> set ?bs1" and sub: "set (m_prev t') \<subseteq> set (m_prev t1)" by blast
      from minus_removes(1) [OF Cons.prems(1) d0k] t1 d have "fst d \<notin> set (m_prev t1)" by simp
      with sub show ?thesis by blast
    qed
    moreover have "snd d \<notin> set (m_next t')" if "(fst d, t') \<in> set ?res" for t'
    proof -
      from fold_minus_shrinks [OF that] obtain t1 where
        t1: "(fst d, t1) \<in> set ?bs1" and sub: "set (m_next t') \<subseteq> set (m_next t1)" by blast
      from minus_removes(2) [OF Cons.prems(1) d0k] t1 d have "snd d \<notin> set (m_next t1)" by simp
      with sub show ?thesis by blast
    qed
    ultimately show ?thesis by simp
  qed
qed

lemma closed_fold_minus:
  assumes "adjacency_closed bs"
  shows "adjacency_closed (fold (\<lambda>p. operator_minus_assign (fst p) (snd p)) dead bs)"
proof -
  let ?res = "fold (\<lambda>p. operator_minus_assign (fst p) (snd p)) dead bs"
  have "set (m_next t') \<subseteq> fst ` set bs \<and> set (m_prev t') \<subseteq> fst ` set bs"
    if "(k, t') \<in> set ?res" for k t'
  proof -
    from fold_minus_shrinks [OF that] obtain t where
      t: "(k, t) \<in> set bs" and sub: "set (m_prev t') \<subseteq> set (m_prev t)"
        "set (m_next t') \<subseteq> set (m_next t)" by blast
    from assms t have "set (m_next t) \<subseteq> fst ` set bs \<and> set (m_prev t) \<subseteq> fst ` set bs"
      by (fastforce simp: adjacency_closed_def)
    with sub show ?thesis by blast
  qed
  then have "\<And>kb. kb \<in> set ?res \<Longrightarrow>
      set (m_next (snd kb)) \<subseteq> fst ` set bs \<and> set (m_prev (snd kb)) \<subseteq> fst ` set bs"
    by (simp add: split_paired_all)
  then show ?thesis
    unfolding adjacency_closed_def keys_fold_minus by blast
qed

lemma closed_minus:
  "adjacency_closed bs \<Longrightarrow> adjacency_closed (operator_minus_assign a b bs)"
  using closed_fold_minus [of bs "[(a, b)]"] by simp

lemma dead_edges_returns:
  "\<forall>i \<in> set is. i \<in> fst ` set (m_blocks c) \<Longrightarrow>
   dead_edges mk a c is = Inr (map mk (filter (\<lambda>i. a \<noteq> i) is))"
proof (induction "is")
  case Nil
  then show ?case by simp
next
  case (Cons i "is")
  then have "map_of (m_blocks c) i \<noteq> None" by (simp add: map_of_eq_None_iff)
  then obtain t where "get_node i c = Inr t" by (auto simp: get_node_def)
  with Cons show ?case by (auto simp: bind_err_def)
qed

lemma remove_returns_closed:
  assumes wf: "blocks_wf (m_blocks c)" and sym: "adjacency_symmetric (m_blocks c)"
    and cl: "adjacency_closed (m_blocks c)" and a: "a \<in> fst ` set (m_blocks c)"
  shows "\<exists>c'. remove a c = Inr c' \<and> adjacency_closed (m_blocks c')"
proof -
  let ?bs = "m_blocks c"
  from wf have dist: "distinct (map fst ?bs)" by (simp add: blocks_wf_def)
  from a dist obtain bb where bb: "map_of ?bs a = Some bb"
    by (metis domD dom_map_of_conv_image_fst)
  then have abb: "(a, bb) \<in> set ?bs" by (rule map_of_SomeD)
  from cl abb have nk: "\<forall>i \<in> set (m_next bb). i \<in> fst ` set ?bs"
    and pk: "\<forall>i \<in> set (m_prev bb). i \<in> fst ` set ?bs"
    by (fastforce simp: adjacency_closed_def)+
  let ?dp = "map (\<lambda>i. (i, a)) (filter (\<lambda>i. a \<noteq> i) (m_prev bb))"
  let ?dn = "map (\<lambda>i. (a, i)) (filter (\<lambda>i. a \<noteq> i) (m_next bb))"
  let ?dead = "?dp @ ?dn"
  let ?res = "fold (\<lambda>p. operator_minus_assign (fst p) (snd p)) ?dead ?bs"
  have rm: "remove a c = Inr (c\<lparr>m_blocks := umap_erase a ?res\<rparr>)"
    using bb dead_edges_returns [OF pk, of "\<lambda>i. (i, a)" a]
      dead_edges_returns [OF nk, of "\<lambda>i. (a, i)" a]
    by (simp add: remove_def get_node_def bind_err_def del: fold_append)
  have deadk: "\<forall>d \<in> set ?dead. fst d \<in> fst ` set ?bs \<and> snd d \<in> fst ` set ?bs"
    using nk pk by (auto simp: a)
  from fold_minus_invariant [OF wf sym, of ?dead]
  have wf': "blocks_wf ?res" and sym': "adjacency_symmetric ?res" by simp_all
  from closed_fold_minus [OF cl, of ?dead] have cl': "adjacency_closed ?res" .
  have keys': "fst ` set ?res = fst ` set ?bs" by (rule keys_fold_minus)
  from wf' have ids': "\<And>k t. (k, t) \<in> set ?res \<Longrightarrow> m_bb_id t = k"
    by (auto simp: blocks_wf_def)
  have prev_a: "set (m_prev t') \<subseteq> {a}" and next_a: "set (m_next t') \<subseteq> {a}"
    if at: "(a, t') \<in> set ?res" for t'
  proof -
    from fold_minus_shrinks [OF at] obtain t where
      t: "(a, t) \<in> set ?bs" and sub: "set (m_prev t') \<subseteq> set (m_prev t)"
        "set (m_next t') \<subseteq> set (m_next t)" by blast
    from t abb dist have tb: "t = bb" by (meson eq_key_imp_eq_value)
    show "set (m_prev t') \<subseteq> {a}"
    proof
      fix i assume i: "i \<in> set (m_prev t')"
      show "i \<in> {a}"
      proof (rule ccontr)
        assume "i \<notin> {a}"
        with i sub tb have "(i, a) \<in> set ?dead" by auto
        from fold_minus_removes [OF wf deadk this] at have "i \<notin> set (m_prev t')" by simp
        with i show False by simp
      qed
    qed
    show "set (m_next t') \<subseteq> {a}"
    proof
      fix i assume i: "i \<in> set (m_next t')"
      show "i \<in> {a}"
      proof (rule ccontr)
        assume "i \<notin> {a}"
        with i sub tb have "(a, i) \<in> set ?dead" by auto
        from fold_minus_removes [OF wf deadk this] at have "i \<notin> set (m_next t')" by simp
        with i show False by simp
      qed
    qed
  qed
  from a keys' obtain ta where ta: "(a, ta) \<in> set ?res" by force
  have "set (m_next t') \<subseteq> fst ` set (umap_erase a ?res) \<and>
        set (m_prev t') \<subseteq> fst ` set (umap_erase a ?res)"
    if kt: "(k, t') \<in> set (umap_erase a ?res)" for k t'
  proof -
    from kt have kin: "(k, t') \<in> set ?res" and ka: "k \<noteq> a" by (auto simp: umap_erase_def)
    from cl' kin have inres: "set (m_next t') \<subseteq> fst ` set ?res" "set (m_prev t') \<subseteq> fst ` set ?res"
      by (fastforce simp: adjacency_closed_def)+
    from sym' kin ta have s1: "(m_bb_id ta \<in> set (m_next t')) = (m_bb_id t' \<in> set (m_prev ta))"
      by (fastforce simp: adjacency_symmetric_def)
    from sym' kin ta have s2: "(m_bb_id t' \<in> set (m_next ta)) = (m_bb_id ta \<in> set (m_prev t'))"
      by (fastforce simp: adjacency_symmetric_def)
    from ids' [OF ta] ids' [OF kin] s1 prev_a [OF ta] ka have n: "a \<notin> set (m_next t')" by auto
    from ids' [OF ta] ids' [OF kin] s2 next_a [OF ta] ka have p: "a \<notin> set (m_prev t')" by auto
    have "fst ` set (umap_erase a ?res) = fst ` set ?res - {a}"
      by (force simp: umap_erase_def)
    with inres n p show ?thesis by blast
  qed
  then have "\<And>kb. kb \<in> set (umap_erase a ?res) \<Longrightarrow>
      set (m_next (snd kb)) \<subseteq> fst ` set (umap_erase a ?res) \<and>
      set (m_prev (snd kb)) \<subseteq> fst ` set (umap_erase a ?res)"
    by (simp add: split_paired_all)
  then have "adjacency_closed (umap_erase a ?res)"
    unfolding adjacency_closed_def by blast
  with rm show ?thesis by simp
qed

lemma insert_invariant:
  assumes wf: "blocks_wf (m_blocks c)" and sym: "adjacency_symmetric (m_blocks c)"
    and cl: "adjacency_closed (m_blocks c)"
  shows "adjacency_symmetric (m_blocks (cfg_insert k c)) \<and>
         adjacency_closed (m_blocks (cfg_insert k c))"
proof (cases "map_of (m_blocks c) k")
  case (Some b)
  with sym cl show ?thesis by (simp add: cfg_insert_def)
next
  case None
  then have nk: "k \<notin> fst ` set (m_blocks c)" by (simp add: map_of_eq_None_iff)
  from wf have ids: "\<And>kb. kb \<in> set (m_blocks c) \<Longrightarrow> m_bb_id (snd kb) = fst kb"
    by (auto simp: blocks_wf_def)
  have clN: "\<And>kb x. kb \<in> set (m_blocks c) \<Longrightarrow> x \<in> set (m_next (snd kb)) \<Longrightarrow>
      x \<in> fst ` set (m_blocks c)"
    using cl by (fastforce simp: adjacency_closed_def)
  have clP: "\<And>kb x. kb \<in> set (m_blocks c) \<Longrightarrow> x \<in> set (m_prev (snd kb)) \<Longrightarrow>
      x \<in> fst ` set (m_blocks c)"
    using cl by (fastforce simp: adjacency_closed_def)
  have eq: "m_blocks (cfg_insert k c) =
      m_blocks c @ [(k, basic_block_create k (m_track_prec_cfg c))]"
    using None by (simp add: cfg_insert_def umap_insert_def)
  have "adjacency_symmetric (m_blocks (cfg_insert k c))"
    unfolding eq adjacency_symmetric_def
    using sym nk clN clP
    by (auto simp: adjacency_symmetric_def basic_block_create_def)
  moreover have "adjacency_closed (m_blocks (cfg_insert k c))"
    unfolding eq adjacency_closed_def
    using clN clP by (auto simp: basic_block_create_def)
  ultimately show ?thesis by simp
qed

text \<open>
  C3. In a block table that stores every block under its own label, adjacency
  symmetry (B is a successor of A iff A is a predecessor of B, for all blocks A, B of
  the CFG) is preserved by an edge insertion \<open>operator>>\<close>, by an edge removal
  \<open>operator-=\<close> and by every \<open>Cfg::remove\<close> that returns; the table stays
  well-formed, so the invariant carries through any sequence of these operations.
  Where moreover the adjacency lists name only blocks of the CFG, that stays so, the
  removal of a block of the CFG does return, and \<open>Cfg::insert\<close> keeps all three
  invariants.
\<close>

theorem adjacency_symmetry_preserved:
  assumes "blocks_wf (m_blocks c)" and "adjacency_symmetric (m_blocks c)"
  shows "blocks_wf (operator_rshift a b (m_blocks c)) \<and>
         adjacency_symmetric (operator_rshift a b (m_blocks c)) \<and>
         blocks_wf (operator_minus_assign a b (m_blocks c)) \<and>
         adjacency_symmetric (operator_minus_assign a b (m_blocks c)) \<and>
         (\<forall>c'. remove a c = Inr c' \<longrightarrow>
            blocks_wf (m_blocks c') \<and> adjacency_symmetric (m_blocks c')) \<and>
         (adjacency_closed (m_blocks c) \<longrightarrow>
            adjacency_closed (operator_rshift a b (m_blocks c)) \<and>
            adjacency_closed (operator_minus_assign a b (m_blocks c)) \<and>
            (a \<in> fst ` set (m_blocks c) \<longrightarrow>
               (\<exists>c'. remove a c = Inr c' \<and> adjacency_closed (m_blocks c'))) \<and>
            blocks_wf (m_blocks (cfg_insert a c)) \<and>
            adjacency_symmetric (m_blocks (cfg_insert a c)) \<and>
            adjacency_closed (m_blocks (cfg_insert a c)))"
proof -
  from assms have "blocks_wf (operator_rshift a b (m_blocks c))"
    and "adjacency_symmetric (operator_rshift a b (m_blocks c))"
    and "blocks_wf (operator_minus_assign a b (m_blocks c))"
    and "adjacency_symmetric (operator_minus_assign a b (m_blocks c))"
    by (simp_all add: blocks_wf_rshift symmetric_rshift blocks_wf_minus symmetric_minus)
  moreover have "\<forall>c'. remove a c = Inr c' \<longrightarrow>
      blocks_wf (m_blocks c') \<and> adjacency_symmetric (m_blocks c')"
    using remove_invariant [OF assms] by blast
  moreover have "adjacency_closed (operator_rshift a b (m_blocks c))"
    and "adjacency_closed (operator_minus_assign a b (m_blocks c))"
    and "blocks_wf (m_blocks (cfg_insert a c))"
    and "adjacency_symmetric (m_blocks (cfg_insert a c))"
    and "adjacency_closed (m_blocks (cfg_insert a c))"
    if "adjacency_closed (m_blocks c)"
    using that assms insert_invariant [OF assms that, of a]
    by (simp_all add: closed_rshift closed_minus blocks_wf_cfg_insert)
  moreover have "\<exists>c'. remove a c = Inr c' \<and> adjacency_closed (m_blocks c')"
    if "adjacency_closed (m_blocks c)" and "a \<in> fst ` set (m_blocks c)"
    using remove_returns_closed [OF assms that] .
  ultimately show ?thesis by blast
qed

theorem adjacency_symmetry_preserved_witness:
  "blocks_wf (m_blocks two_block_cfg) \<and> adjacency_symmetric (m_blocks two_block_cfg) \<and>
   adjacency_closed (m_blocks two_block_cfg) \<and> 1 \<in> fst ` set (m_blocks two_block_cfg) \<and>
   adjacency_symmetric (operator_rshift 1 0 (m_blocks two_block_cfg)) \<and>
   adjacency_symmetric (operator_minus_assign 0 1 (m_blocks two_block_cfg)) \<and>
   remove 1 two_block_cfg =
     Inr (two_block_cfg\<lparr>m_blocks :=
        [(0, \<lparr>m_bb_id = 0,
               m_stmts = [havoc_stmt \<lparr>var_name = ''x'', get_type = INT_TYPE, get_bitwidth = 32\<rparr>],
               m_prev = [], m_next = [], m_track_prec = NUM, m_insert_point_at_front = False,
               m_live_bb = [\<lparr>var_name = ''x'', get_type = INT_TYPE, get_bitwidth = 32\<rparr>]\<rparr>)]\<rparr>) \<and>
   adjacency_symmetric
        [(0, \<lparr>m_bb_id = 0::nat,
               m_stmts = [havoc_stmt \<lparr>var_name = ''x'', get_type = INT_TYPE, get_bitwidth = 32\<rparr>],
               m_prev = [], m_next = [], m_track_prec = NUM, m_insert_point_at_front = False,
               m_live_bb = [\<lparr>var_name = ''x'', get_type = INT_TYPE, get_bitwidth = 32\<rparr>]\<rparr>)] \<and>
   adjacency_closed
        [(0, \<lparr>m_bb_id = 0::nat,
               m_stmts = [havoc_stmt \<lparr>var_name = ''x'', get_type = INT_TYPE, get_bitwidth = 32\<rparr>],
               m_prev = [], m_next = [], m_track_prec = NUM, m_insert_point_at_front = False,
               m_live_bb = [\<lparr>var_name = ''x'', get_type = INT_TYPE, get_bitwidth = 32\<rparr>]\<rparr>)]"
proof -
  have wf: "blocks_wf (m_blocks two_block_cfg)"
    by (simp add: two_block_cfg_value blocks_wf_def)
  have sym: "adjacency_symmetric (m_blocks two_block_cfg)"
    by (simp add: two_block_cfg_value adjacency_symmetric_def)
  have cl: "adjacency_closed (m_blocks two_block_cfg)"
    by (simp add: two_block_cfg_value adjacency_closed_def)
  have k: "1 \<in> fst ` set (m_blocks two_block_cfg)"
    by (simp add: two_block_cfg_value)
  have rm: "remove 1 two_block_cfg =
     Inr (two_block_cfg\<lparr>m_blocks :=
        [(0, \<lparr>m_bb_id = 0,
               m_stmts = [havoc_stmt \<lparr>var_name = ''x'', get_type = INT_TYPE, get_bitwidth = 32\<rparr>],
               m_prev = [], m_next = [], m_track_prec = NUM, m_insert_point_at_front = False,
               m_live_bb = [\<lparr>var_name = ''x'', get_type = INT_TYPE, get_bitwidth = 32\<rparr>]\<rparr>)]\<rparr>)"
    by (simp add: two_block_cfg_value remove_def get_node_def bind_err_def
        operator_minus_assign_def blocks_modify_def remove_adjacent_def umap_erase_def)
  from adjacency_symmetry_preserved [OF wf sym, of 1 0]
  have r: "adjacency_symmetric (operator_rshift 1 0 (m_blocks two_block_cfg))" by simp
  from adjacency_symmetry_preserved [OF wf sym, of 0 1]
  have m: "adjacency_symmetric (operator_minus_assign 0 1 (m_blocks two_block_cfg))" by simp
  from adjacency_symmetry_preserved [OF wf sym, of 1 0] rm cl k
  have "adjacency_symmetric
        [(0, \<lparr>m_bb_id = 0::nat,
               m_stmts = [havoc_stmt \<lparr>var_name = ''x'', get_type = INT_TYPE, get_bitwidth = 32\<rparr>],
               m_prev = [], m_next = [], m_track_prec = NUM, m_insert_point_at_front = False,
               m_live_bb = [\<lparr>var_name = ''x'', get_type = INT_TYPE, get_bitwidth = 32\<rparr>]\<rparr>)] \<and>
   adjacency_closed
        [(0, \<lparr>m_bb_id = 0::nat,
               m_stmts = [havoc_stmt \<lparr>var_name = ''x'', get_type = INT_TYPE, get_bitwidth = 32\<rparr>],
               m_prev = [], m_next = [], m_track_prec = NUM, m_insert_point_at_front = False,
               m_live_bb = [\<lparr>var_name = ''x'', get_type = INT_TYPE, get_bitwidth = 32\<rparr>]\<rparr>)]"
    by auto
  with wf sym cl k r m rm show ?thesis by simp
qed

subsection \<open>Cloning\<close>

text \<open>
  C1. The clone of a CFG is to have the statements and the adjacency of every block
  of the original. \<open>Cfg::clone\<close> builds the copy with the constructor that already
  inserts an empty entry block, and \<open>unordered_map::insert\<close> keeps that block when
  the clone of the original's entry arrives: the original's entry holds one statement
  and the successor \<open>1\<close>, the clone's entry holds no statement and no successor
  (while block \<open>1\<close> of the clone still names \<open>0\<close> as its predecessor).
\<close>

theorem clone_entry_block_empty:
  "map_option (\<lambda>b. (length (m_stmts b), m_next b)) (map_of (m_blocks two_block_cfg) 0) =
     Some (1, [1]) \<and>
   cfg_clone two_block_cfg =
     Inr \<lparr>m_entry = 0, m_exit = None,
          m_blocks =
            [(0, \<lparr>m_bb_id = 0, m_stmts = [], m_prev = [], m_next = [], m_track_prec = NUM,
                   m_insert_point_at_front = False, m_live_bb = []\<rparr>),
             (1, \<lparr>m_bb_id = 1, m_stmts = [], m_prev = [0], m_next = [], m_track_prec = NUM,
                   m_insert_point_at_front = False, m_live_bb = []\<rparr>)],
          m_track_prec_cfg = NUM, m_func_decl = None\<rparr>"
  by (simp add: two_block_cfg_value cfg_clone_def Let_def Cfg_entry_def umap_insert_def
      basic_block_create_def bb_clone_def stmt_clone_def havoc_stmt_def bind_err_def)

subsection \<open>Block fusion\<close>

text \<open>
  C4. A block is to be fused into its predecessor only when that predecessor has the
  block as its one successor. \<open>merge_blocks_rec\<close> tests \<open>has_one_child (curId)\<close> and
  \<open>has_one_parent (curId)\<close>, the successors and predecessors of the block itself,
  and never the successors of the parent: in the CFG whose entry \<open>0\<close> branches to
  \<open>1\<close> and \<open>2\<close>, with \<open>2\<close> leading to \<open>3\<close>, \<open>simplify\<close> fuses block \<open>2\<close> into the
  entry although the entry has two successors; \<open>havoc y\<close> now also runs on the path
  to \<open>1\<close>.
\<close>

theorem fusion_into_branching_parent:
  "map_option m_next (map_of (m_blocks branching_cfg) 0) = Some [1, 2] \<and>
   map_option (\<lambda>b. (m_prev b, m_next b)) (map_of (m_blocks branching_cfg) 2) = Some ([0], [3]) \<and>
   simplify 10 branching_cfg =
     Some (Inr (branching_cfg\<lparr>m_blocks :=
       [(0, \<lparr>m_bb_id = 0,
              m_stmts = [havoc_stmt \<lparr>var_name = ''x'', get_type = INT_TYPE, get_bitwidth = 32\<rparr>,
                         havoc_stmt \<lparr>var_name = ''y'', get_type = INT_TYPE, get_bitwidth = 32\<rparr>],
              m_prev = [], m_next = [1, 3], m_track_prec = NUM,
              m_insert_point_at_front = False,
              m_live_bb = [\<lparr>var_name = ''x'', get_type = INT_TYPE, get_bitwidth = 32\<rparr>,
                           \<lparr>var_name = ''y'', get_type = INT_TYPE, get_bitwidth = 32\<rparr>]\<rparr>),
        (1, \<lparr>m_bb_id = 1, m_stmts = [], m_prev = [0], m_next = [], m_track_prec = NUM,
              m_insert_point_at_front = False, m_live_bb = []\<rparr>),
        (3, \<lparr>m_bb_id = 3, m_stmts = [], m_prev = [0], m_next = [], m_track_prec = NUM,
              m_insert_point_at_front = False, m_live_bb = []\<rparr>)]\<rparr>))"
  by code_simp

end
